theory Spec2Isabelle
  imports Complex_Main "HOL-Library.AList" "HOL-Library.Monad_Syntax"
begin

section \<open>Python values\<close>

text \<open>
  The scripts handle text fetched over HTTP and JSON values; both are modelled as data.
  A Python \<open>str\<close> is a \<open>string\<close> whose characters are the code points below 256.
  A Python \<open>float\<close> is a \<open>pyfloat\<close>: a finite value (an exact rational; the binary
  rounding of the value is not modelled), an infinity or a NaN. A Python \<open>int\<close> is a
  finite \<open>pyfloat\<close> with an integral value where it appears inside JSON.
  A value of type \<open>'a option\<close> returned by a function that can raise stands for
  "the call returned \<open>x\<close>" (\<open>Some x\<close>) or "an exception escaped the call" (\<open>None\<close>); the
  driver catches every exception of an extractor in the same way, so the class of the
  exception is not kept.
\<close>

datatype pyfloat = Finite rat | PosInf | NegInf | NaN

datatype json =
    JNull
  | JBool bool
  | JNum pyfloat
  | JStr string
  | JArr "json list"
  | JObj "(string \<times> json) list"

text \<open>\<open>v >= c\<close> and \<open>v < c\<close> for a float \<open>v\<close> and a finite constant \<open>c\<close>.\<close>

fun ge_num :: "pyfloat \<Rightarrow> rat \<Rightarrow> bool" where
  "ge_num (Finite x) c = (c \<le> x)"
| "ge_num PosInf c = True"
| "ge_num NegInf c = False"
| "ge_num NaN c = False"

fun lt_num :: "pyfloat \<Rightarrow> rat \<Rightarrow> bool" where
  "lt_num (Finite x) c = (x < c)"
| "lt_num PosInf c = False"
| "lt_num NegInf c = True"
| "lt_num NaN c = False"

text \<open>
  The builtins of the language and of its library that the scripts call: \<open>float(s)\<close> and
  \<open>int(s)\<close> on a \<open>str\<close> (\<open>None\<close> is the \<open>ValueError\<close>); the construction of a UTC
  \<open>datetime\<close> followed by \<open>isoformat()\<close>; the text that an f-string or \<open>str.format\<close>
  puts for a value; \<open>urlparse\<close>, as the pair of the scheme and the network location
  (\<open>None\<close> when it raises); and \<open>list.sort(key=..., reverse=True)\<close>, which takes the
  items with their keys and returns the items in descending order of the keys (\<open>None\<close>
  when a comparison raises). They are parameters of the model: a theorem that has a
  variable for them holds for any behaviour.
\<close>

datatype dt_result = Iso string | DtValueError | DtOtherError

record builtins =
  py_float :: "string \<Rightarrow> pyfloat option"
  py_int :: "string \<Rightarrow> int option"
  py_datetime :: "int \<Rightarrow> int \<Rightarrow> int \<Rightarrow> int \<Rightarrow> int \<Rightarrow> dt_result"
  py_str :: "json \<Rightarrow> string"
  py_urlparse :: "json \<Rightarrow> (string \<times> string) option"
  py_sort_desc :: "(json \<times> json) list \<Rightarrow> json list option"

text \<open>
  The network at the time of a run: what \<open>fetch_url\<close> returns for a URL (the text of the
  body, \<open>None\<close> on any failure) and what \<open>fetch_json\<close> returns (the decoded body, \<open>None\<close>
  on a failure or a body that is not JSON).
\<close>

record network =
  fetch_url :: "string \<Rightarrow> string option"
  fetch_json :: "string \<Rightarrow> json option"

section \<open>Text helpers: \<open>str.strip\<close>, \<open>str.split\<close>\<close>

definition is_space :: "char \<Rightarrow> bool" where
  "is_space c =
     (let n = (of_char c :: nat)
      in (9 \<le> n \<and> n \<le> 13) \<or> (28 \<le> n \<and> n \<le> 32) \<or> n = 133 \<or> n = 160)"

definition strip :: "string \<Rightarrow> string" where
  "strip s = rev (dropWhile is_space (rev (dropWhile is_space s)))"

text \<open>\<open>s.split(c)\<close> for a one-character separator: \<open>"".split(c)\<close> is \<open>[""]\<close>.\<close>

fun split_on :: "char \<Rightarrow> string \<Rightarrow> string list" where
  "split_on c [] = [[]]"
| "split_on c (x # xs) =
     (if x = c then [] # split_on c xs
      else (case split_on c xs of [] \<Rightarrow> [[x]] | w # ws \<Rightarrow> (x # w) # ws))"

text \<open>\<open>s.split()\<close>: the maximal runs of non-whitespace; \<open>w\<close> is the run being read, reversed.\<close>

fun words_from :: "string \<Rightarrow> string \<Rightarrow> string list" where
  "words_from w [] = (if w = [] then [] else [rev w])"
| "words_from w (c # cs) =
     (if is_space c then (if w = [] then words_from [] cs else rev w # words_from [] cs)
      else words_from (c # w) cs)"

definition split_ws :: "string \<Rightarrow> string list" where
  "split_ws s = words_from [] s"

section \<open>Feed parsers\<close>

text \<open>\<open>col_map = {h: i for i, h in enumerate(headers)}\<close>: a repeated name keeps its last index.\<close>

definition col_map_of :: "string list \<Rightarrow> (string \<rightharpoonup> nat)" where
  "col_map_of headers = fold (\<lambda>(i, h) m. m(h \<mapsto> i)) (enumerate 0 headers) Map.empty"

definition sentinels :: "string list" where
  "sentinels = [''MM'', ''99.0'', ''999.0'', ''9999.0'', ''99.00'', ''999'', ''9999'']"

text \<open>\<open>get_val\<close> of \<open>_parse_ocean_feed\<close> (and of \<open>parse_ocean_feed\<close>, the same text).\<close>

definition get_val :: "builtins \<Rightarrow> (string \<rightharpoonup> nat) \<Rightarrow> string list \<Rightarrow> string \<Rightarrow> pyfloat option" where
  "get_val B col_map parts col_name =
     (case col_map col_name of
        None \<Rightarrow> None
      | Some idx \<Rightarrow>
          if idx \<ge> length parts then None
          else
            let val_str = parts ! idx in
            if val_str \<in> set sentinels then None
            else
              (case py_float B val_str of
                 None \<Rightarrow> None
               | Some v \<Rightarrow> if ge_num v 99 \<and> col_name \<notin> set [''DEPTH''] then None else Some v))"

text \<open>\<open>get\<close> of \<open>_parse_ndbc_met_txt\<close>.\<close>

definition get :: "builtins \<Rightarrow> (string \<rightharpoonup> nat) \<Rightarrow> string list \<Rightarrow> string \<Rightarrow> pyfloat option" where
  "get B col_map parts name =
     (case col_map name of
        None \<Rightarrow> None
      | Some idx \<Rightarrow>
          if idx \<ge> length parts then None
          else
            let s = parts ! idx in
            if s \<in> set sentinels then None
            else
              (case py_float B s of
                 None \<Rightarrow> None
               | Some v \<Rightarrow> if lt_num v 999 then Some v else None))"

text \<open>
  What \<open>float\<close> returns on the sentinel strings: \<open>"MM"\<close> raises \<open>ValueError\<close>, the others
  are the numbers they spell, each exactly representable.
\<close>

definition float_reads_sentinels :: "builtins \<Rightarrow> bool" where
  "float_reads_sentinels B =
     (map (py_float B) sentinels =
        [None, Some (Finite 99), Some (Finite 999), Some (Finite 9999),
         Some (Finite 99), Some (Finite 999), Some (Finite 9999)])"

text \<open>
  \<open>_parse_ocean_feed\<close>. The dict \<open>readings\<close> keeps its five keys, each holding \<open>None\<close>
  until a row fills it; \<open>timestamp\<close> is \<open>None\<close> until a row's date builds a datetime.
\<close>

type_synonym ocean_state = "(string \<times> pyfloat option) list \<times> string option"

definition cell :: "builtins \<Rightarrow> string list \<Rightarrow> nat \<Rightarrow> int option" where
  \<comment> \<open>\<open>int(parts[idx])\<close>: \<open>None\<close> is the \<open>IndexError\<close> or the \<open>ValueError\<close>.\<close>
  "cell B parts idx = (if idx < length parts then py_int B (parts ! idx) else None)"

definition get_or :: "(string \<rightharpoonup> nat) \<Rightarrow> string \<Rightarrow> nat \<Rightarrow> nat" where
  \<comment> \<open>\<open>col_map.get(name, default)\<close>\<close>
  "get_or col_map name d = (case col_map name of None \<Rightarrow> d | Some i \<Rightarrow> i)"

definition row_time :: "builtins \<Rightarrow> (string \<rightharpoonup> nat) \<Rightarrow> string list \<Rightarrow> (int \<times> int \<times> int \<times> int \<times> int) option" where
  "row_time B col_map parts =
     do {
       yr \<leftarrow> cell B parts (get_or col_map ''#YY'' (get_or col_map ''YY'' 0));
       mo \<leftarrow> cell B parts (get_or col_map ''MM'' 1);
       dy \<leftarrow> cell B parts (get_or col_map ''DD'' 2);
       hr \<leftarrow> cell B parts (get_or col_map ''hh'' 3);
       mn \<leftarrow> cell B parts (get_or col_map ''mm'' 4);
       Some (yr, mo, dy, hr, mn)
     }"

definition stamp :: "builtins \<Rightarrow> string option \<Rightarrow> int \<times> int \<times> int \<times> int \<times> int \<Rightarrow> string option option" where
  \<comment> \<open>the \<open>if timestamp is None: try: ... except ValueError: pass\<close> block; the outer
      \<open>None\<close> is an exception other than \<open>ValueError\<close>, which escapes the parser\<close>
  "stamp B timestamp t =
     (case timestamp of
        Some s \<Rightarrow> Some (Some s)
      | None \<Rightarrow>
          (case t of (yr, mo, dy, hr, mn) \<Rightarrow>
             (case py_datetime B yr mo dy hr mn of
                Iso s \<Rightarrow> Some (Some s)
              | DtValueError \<Rightarrow> Some None
              | DtOtherError \<Rightarrow> None)))"

definition fill :: "builtins \<Rightarrow> (string \<rightharpoonup> nat) \<Rightarrow> string list \<Rightarrow> string \<Rightarrow> string \<Rightarrow>
    (string \<times> pyfloat option) list \<Rightarrow> (string \<times> pyfloat option) list" where
  \<comment> \<open>\<open>if readings[key] is None: readings[key] = get_val(col)\<close>\<close>
  "fill B col_map parts key col readings =
     (if map_of readings key = Some None
      then AList.update key (get_val B col_map parts col) readings
      else readings)"

definition fill_all :: "builtins \<Rightarrow> (string \<rightharpoonup> nat) \<Rightarrow> string list \<Rightarrow>
    (string \<times> pyfloat option) list \<Rightarrow> (string \<times> pyfloat option) list" where
  "fill_all B col_map parts readings =
     fill B col_map parts ''turb'' ''TURB''
       (fill B col_map parts ''ph'' ''PH''
         (fill B col_map parts ''sal'' ''SAL''
           (fill B col_map parts ''temp'' ''OTMP''
             (fill B col_map parts ''do'' ''O2PPM'' readings))))"

fun scan_ocean :: "builtins \<Rightarrow> (string \<rightharpoonup> nat) \<Rightarrow> string list \<Rightarrow> ocean_state \<Rightarrow> ocean_state option" where
  "scan_ocean B col_map [] st = Some st"
| "scan_ocean B col_map (line # rest) (readings, timestamp) =
     (let parts = split_ws line in
      if length parts < 5 then scan_ocean B col_map rest (readings, timestamp)
      else
        (case row_time B col_map parts of
           None \<Rightarrow> scan_ocean B col_map rest (readings, timestamp)
         | Some t \<Rightarrow>
             (case stamp B timestamp t of
                None \<Rightarrow> None
              | Some timestamp' \<Rightarrow>
                  let readings' = fill_all B col_map parts readings in
                  if map_of readings' ''do'' \<noteq> Some None \<and> map_of readings' ''temp'' \<noteq> Some None
                  then Some (readings', timestamp')
                  else scan_ocean B col_map rest (readings', timestamp'))))"

definition readings0 :: "(string \<times> pyfloat option) list" where
  "readings0 = [(''do'', None), (''temp'', None), (''sal'', None), (''ph'', None), (''turb'', None)]"

definition not_none :: "(string \<times> pyfloat option) list \<Rightarrow> (string \<times> json) list" where
  \<comment> \<open>\<open>{k: v for k, v in readings.items() if v is not None}\<close>\<close>
  "not_none readings = List.map_filter (\<lambda>(k, v). map_option (\<lambda>x. (k, JNum x)) v) readings"

definition ocean_result :: "ocean_state \<Rightarrow> (string \<times> json) list option" where
  "ocean_result st =
     (case st of (readings, timestamp) \<Rightarrow>
        let result = not_none readings;
            result = (case timestamp of
                        None \<Rightarrow> result
                      | Some s \<Rightarrow> if s \<noteq> [] then AList.update ''timestamp'' (JStr s) result else result)
        in if result \<noteq> [] then Some result else None)"

definition split_lines :: "string \<Rightarrow> string list" where
  \<comment> \<open>\<open>text.strip().split("\n")\<close>\<close>
  "split_lines text = split_on (CHR 0x0A) (strip text)"

definition parse_ocean_feed :: "builtins \<Rightarrow> string option \<Rightarrow> (string \<times> json) list option option" where
  "parse_ocean_feed B text =
     (case text of
        None \<Rightarrow> Some None
      | Some t \<Rightarrow>
          if t = [] then Some None
          else
            let lines = split_lines t in
            if length lines < 3 then Some None
            else
              let headers = split_ws (lines ! 0);
                  col_map = col_map_of headers
              in map_option ocean_result
                   (scan_ocean B col_map (take 48 (drop 2 lines)) (readings0, None)))"

text \<open>\<open>_parse_txt_feed\<close> (and \<open>parse_txt_feed\<close>, the same text): the water-temperature fallback.\<close>

fun scan_txt :: "builtins \<Rightarrow> (string \<rightharpoonup> nat) \<Rightarrow> string list \<Rightarrow> (string \<times> json) list option" where
  "scan_txt B col_map [] = None"
| "scan_txt B col_map (line # rest) =
     (let parts = split_ws line in
      if length parts < 5 then scan_txt B col_map rest
      else
        (case col_map ''WTMP'' of
           None \<Rightarrow> scan_txt B col_map rest
         | Some wtmp_idx \<Rightarrow>
             if wtmp_idx \<noteq> 0 \<and> wtmp_idx < length parts
             then
               (case py_float B (parts ! wtmp_idx) of
                  None \<Rightarrow> scan_txt B col_map rest
                | Some v \<Rightarrow>
                    if lt_num v 50 \<and> parts ! wtmp_idx \<noteq> ''MM''
                    then Some [(''temp'', JNum v)]
                    else scan_txt B col_map rest)
             else scan_txt B col_map rest))"

definition parse_txt_feed :: "builtins \<Rightarrow> string option \<Rightarrow> (string \<times> json) list option" where
  "parse_txt_feed B text =
     (case text of
        None \<Rightarrow> None
      | Some t \<Rightarrow>
          if t = [] then None
          else
            let lines = split_lines t in
            if length lines < 3 then None
            else
              let headers = split_ws (lines ! 0);
                  col_map = col_map_of headers
              in scan_txt B col_map (take 8 (drop 2 lines)))"

text \<open>\<open>_parse_ndbc_met_txt\<close>: wind, waves, pressure and temperatures of a weather buoy.\<close>

definition put :: "builtins \<Rightarrow> (string \<rightharpoonup> nat) \<Rightarrow> string list \<Rightarrow> string \<Rightarrow> string \<Rightarrow>
    (string \<times> json) list \<Rightarrow> (string \<times> json) list" where
  \<comment> \<open>\<open>if key not in readings: v = get(col); if v is not None: readings[key] = v\<close>\<close>
  "put B col_map parts key col readings =
     (if map_of readings key = None
      then (case get B col_map parts col of
              None \<Rightarrow> readings
            | Some v \<Rightarrow> AList.update key (JNum v) readings)
      else readings)"

definition put_all :: "builtins \<Rightarrow> (string \<rightharpoonup> nat) \<Rightarrow> string list \<Rightarrow>
    (string \<times> json) list \<Rightarrow> (string \<times> json) list" where
  "put_all B col_map parts readings =
     put B col_map parts ''wtmp'' ''WTMP''
       (put B col_map parts ''atmp'' ''ATMP''
         (put B col_map parts ''pres'' ''PRES''
           (put B col_map parts ''dpd'' ''DPD''
             (put B col_map parts ''wvht'' ''WVHT''
               (put B col_map parts ''wdir'' ''WDIR''
                 (put B col_map parts ''wspd'' ''WSPD'' readings))))))"

fun scan_met :: "builtins \<Rightarrow> (string \<rightharpoonup> nat) \<Rightarrow> string list \<Rightarrow> (string \<times> json) list \<Rightarrow> (string \<times> json) list" where
  "scan_met B col_map [] readings = readings"
| "scan_met B col_map (line # rest) readings =
     (let parts = split_ws line in
      if length parts < 10 then scan_met B col_map rest readings
      else
        let readings' = put_all B col_map parts readings in
        if length readings' \<ge> 4 then readings' else scan_met B col_map rest readings')"

definition parse_ndbc_met_txt :: "builtins \<Rightarrow> string option \<Rightarrow> (string \<times> json) list option" where
  "parse_ndbc_met_txt B text =
     (case text of
        None \<Rightarrow> None
      | Some t \<Rightarrow>
          if t = [] then None
          else
            let lines = split_lines t in
            if length lines < 3 then None
            else
              let headers = split_ws (lines ! 0);
                  col_map = col_map_of headers;
                  readings = scan_met B col_map (take 4 (drop 2 lines)) []
              in if readings \<noteq> [] then Some readings else None)"

section \<open>The builtins on plain tokens\<close>

text \<open>
  One behaviour of the builtins, used to evaluate the scripts on concrete inputs: it reads
  the plain decimal tokens of the feeds (an optional sign, digits, an optional fraction) as
  Python does, up to the binary rounding of the value, and rejects every other token;
  it builds the timestamp of a valid date, formats a \<open>str\<close> as itself, splits a URL of the
  form \<open>scheme://netloc/...\<close> and sorts items whose keys are strings.
\<close>

definition digit_of :: "char \<Rightarrow> nat option" where
  "digit_of c = (let n = (of_char c :: nat) in if 48 \<le> n \<and> n \<le> 57 then Some (n - 48) else None)"

fun dec_num :: "'a::semiring_1 \<Rightarrow> string \<Rightarrow> 'a option" where
  "dec_num acc [] = Some acc"
| "dec_num acc (c # cs) =
     (case digit_of c of None \<Rightarrow> None | Some d \<Rightarrow> dec_num (10 * acc + of_nat d) cs)"

definition unsigned_int :: "string \<Rightarrow> int option" where
  "unsigned_int s = (if s = [] then None else dec_num 0 s)"

definition plain_int :: "string \<Rightarrow> int option" where
  "plain_int s =
     (case s of
        [] \<Rightarrow> None
      | c # cs \<Rightarrow>
          if c = CHR ''-'' then map_option uminus (unsigned_int cs)
          else if c = CHR ''+'' then unsigned_int cs
          else unsigned_int s)"

definition unsigned_float :: "string \<Rightarrow> rat option" where
  "unsigned_float s =
     (let ip = takeWhile (\<lambda>c. c \<noteq> CHR ''.'') s;
          rest = dropWhile (\<lambda>c. c \<noteq> CHR ''.'') s;
          fp = (case rest of [] \<Rightarrow> [] | _ # f \<Rightarrow> f)
      in if ip = [] \<and> fp = [] then None
         else
           (case (dec_num 0 ip, dec_num 0 fp) of
              (Some i, Some f) \<Rightarrow> Some (i + f / 10 ^ length fp)
            | _ \<Rightarrow> None))"

definition plain_float :: "string \<Rightarrow> pyfloat option" where
  "plain_float s =
     (case s of
        [] \<Rightarrow> None
      | c # cs \<Rightarrow>
          if c = CHR ''-'' then map_option (\<lambda>x. Finite (- x)) (unsigned_float cs)
          else if c = CHR ''+'' then map_option Finite (unsigned_float cs)
          else map_option Finite (unsigned_float s))"

definition digit2 :: "nat \<Rightarrow> string" where
  "digit2 n = [char_of (48 + n div 10 mod 10), char_of (48 + n mod 10)]"

definition days_in_month :: "int \<Rightarrow> int \<Rightarrow> int" where
  "days_in_month y m =
     (if m = 2 then (if y mod 4 = 0 \<and> (y mod 100 \<noteq> 0 \<or> y mod 400 = 0) then 29 else 28)
      else if m = 4 \<or> m = 6 \<or> m = 9 \<or> m = 11 then 30 else 31)"

definition plain_datetime :: "int \<Rightarrow> int \<Rightarrow> int \<Rightarrow> int \<Rightarrow> int \<Rightarrow> dt_result" where
  "plain_datetime yr mo dy hr mn =
     (if (\<exists>v \<in> set [yr, mo, dy, hr, mn]. v < - (2 ^ 31) \<or> 2 ^ 31 \<le> v) then DtOtherError
      else if 1 \<le> yr \<and> yr \<le> 9999 \<and> 1 \<le> mo \<and> mo \<le> 12 \<and> 1 \<le> dy \<and> dy \<le> days_in_month yr mo
              \<and> 0 \<le> hr \<and> hr \<le> 23 \<and> 0 \<le> mn \<and> mn \<le> 59
      then Iso (digit2 (nat yr div 100) @ digit2 (nat yr mod 100) @ ''-'' @ digit2 (nat mo) @ ''-''
                @ digit2 (nat dy) @ ''T'' @ digit2 (nat hr) @ '':'' @ digit2 (nat mn) @ '':00+00:00'')
      else DtValueError)"

definition plain_str :: "json \<Rightarrow> string" where
  "plain_str v = (case v of JStr s \<Rightarrow> s | _ \<Rightarrow> ''?'')"

definition plain_urlparse :: "json \<Rightarrow> (string \<times> string) option" where
  \<comment> \<open>a URL \<open>scheme://netloc/...\<close>\<close>
  "plain_urlparse v =
     (case v of
        JStr s \<Rightarrow>
          let scheme = takeWhile (\<lambda>c. c \<noteq> CHR '':'') s;
              rest = dropWhile (\<lambda>c. c \<noteq> CHR '':'') s
          in if take 3 rest = ''://''
             then Some (scheme, takeWhile (\<lambda>c. c \<notin> set ''/?#'') (drop 3 rest))
             else Some ([], [])
      | _ \<Rightarrow> None)"

fun str_less :: "string \<Rightarrow> string \<Rightarrow> bool" where
  "str_less [] [] = False"
| "str_less [] (y # ys) = True"
| "str_less (x # xs) [] = False"
| "str_less (x # xs) (y # ys) = ((of_char x :: nat) < of_char y \<or> (x = y \<and> str_less xs ys))"

fun insert_desc :: "string \<times> json \<Rightarrow> (string \<times> json) list \<Rightarrow> (string \<times> json) list" where
  "insert_desc x [] = [x]"
| "insert_desc x (y # ys) = (if str_less (fst x) (fst y) then y # insert_desc x ys else x # y # ys)"

fun str_keys :: "(json \<times> json) list \<Rightarrow> (string \<times> json) list option" where
  "str_keys [] = Some []"
| "str_keys ((JStr k, v) # kvs) = map_option ((#) (k, v)) (str_keys kvs)"
| "str_keys (_ # kvs) = None"

definition plain_sort_desc :: "(json \<times> json) list \<Rightarrow> json list option" where
  \<comment> \<open>keys that are all strings, in the stable descending order; one item is not compared\<close>
  "plain_sort_desc kvs =
     (if length kvs \<le> 1 then Some (map snd kvs)
      else map_option (\<lambda>xs. map snd (foldr insert_desc xs [])) (str_keys kvs))"

definition plain :: builtins where
  "plain = \<lparr>py_float = plain_float, py_int = plain_int, py_datetime = plain_datetime,
             py_str = plain_str, py_urlparse = plain_urlparse, py_sort_desc = plain_sort_desc\<rparr>"

section \<open>The hypoxia station merge\<close>

text \<open>
  A dict is an association list with distinct keys in insertion order; \<open>d[k] = v\<close> is
  \<open>AList.update k v d\<close>, which overwrites in place or appends. The loop
  \<open>for key, val in readings.items()\<close> of \<open>update_ndbc_hypoxia\<close> (and of \<open>main\<close> in
  \<open>update_stations.py\<close>, the same text) on the dict \<open>station["current"]\<close>:
\<close>

definition merge_readings :: "(string \<times> json) list \<Rightarrow> (string \<times> json) list \<Rightarrow> (string \<times> json) list" where
  "merge_readings current readings =
     fold (\<lambda>(key, val) cur.
             if key = ''timestamp'' then AList.update ''last_obs'' val cur
             else AList.update key val cur)
          readings current"

text \<open>
  The block \<open>if readings: ...\<close> on one station: a missing or null \<open>current\<close> starts from
  the empty dict; a \<open>current\<close> that is not a dict makes the item assignment raise.
\<close>

definition merge_station :: "(string \<times> json) list \<Rightarrow> (string \<times> json) list option \<Rightarrow> (string \<times> json) list option" where
  "merge_station station readings =
     (case readings of
        None \<Rightarrow> Some station
      | Some rs \<Rightarrow>
          if rs = [] then Some station
          else
            (case map_of station ''current'' of
               None \<Rightarrow> Some (AList.update ''current'' (JObj (merge_readings [] rs)) station)
             | Some JNull \<Rightarrow> Some (AList.update ''current'' (JObj (merge_readings [] rs)) station)
             | Some (JObj cur) \<Rightarrow> Some (AList.update ''current'' (JObj (merge_readings cur rs)) station)
             | Some _ \<Rightarrow> None))"

definition stored_key :: "string \<Rightarrow> string" where
  \<comment> \<open>the key of \<open>current\<close> that an entry of the reading is written to\<close>
  "stored_key key = (if key = ''timestamp'' then ''last_obs'' else key)"

section \<open>Python operations on JSON values\<close>

text \<open>
  The values that \<open>json.loads\<close> returns are used by the extractors without any check of
  their type, so each operation is modelled on every JSON value: it returns \<open>None\<close> where
  Python raises (\<open>TypeError\<close>, \<open>AttributeError\<close>, \<open>KeyError\<close>, \<open>IndexError\<close>).
\<close>

fun truthy :: "json \<Rightarrow> bool" where
  "truthy JNull = False"
| "truthy (JBool b) = b"
| "truthy (JNum x) = (x \<noteq> Finite 0)"
| "truthy (JStr s) = (s \<noteq> [])"
| "truthy (JArr xs) = (xs \<noteq> [])"
| "truthy (JObj kvs) = (kvs \<noteq> [])"

fun py_get :: "json \<Rightarrow> string \<Rightarrow> json \<Rightarrow> json option" where
  \<comment> \<open>\<open>x.get(k, d)\<close>\<close>
  "py_get (JObj kvs) k d = Some (case map_of kvs k of None \<Rightarrow> d | Some v \<Rightarrow> v)"
| "py_get _ k d = None"

fun py_len :: "json \<Rightarrow> nat option" where
  "py_len (JStr s) = Some (length s)"
| "py_len (JArr xs) = Some (length xs)"
| "py_len (JObj kvs) = Some (length kvs)"
| "py_len _ = None"

fun py_item :: "json \<Rightarrow> nat \<Rightarrow> json option" where
  \<comment> \<open>\<open>x[i]\<close> for an index \<open>i \<ge> 0\<close>\<close>
  "py_item (JArr xs) i = (if i < length xs then Some (xs ! i) else None)"
| "py_item (JStr s) i = (if i < length s then Some (JStr [s ! i]) else None)"
| "py_item _ i = None"

fun py_last :: "json \<Rightarrow> json option" where
  \<comment> \<open>\<open>x[-1]\<close>\<close>
  "py_last (JArr xs) = (if xs = [] then None else Some (last xs))"
| "py_last (JStr s) = (if s = [] then None else Some (JStr [last s]))"
| "py_last _ = None"

fun py_take :: "nat \<Rightarrow> json \<Rightarrow> json option" where
  \<comment> \<open>\<open>x[:n]\<close>\<close>
  "py_take n (JStr s) = Some (JStr (take n s))"
| "py_take n (JArr xs) = Some (JArr (take n xs))"
| "py_take n _ = None"

definition last_n :: "nat \<Rightarrow> 'a list \<Rightarrow> 'a list" where
  \<comment> \<open>\<open>xs[-n:]\<close> for \<open>n > 0\<close>\<close>
  "last_n n xs = drop (length xs - n) xs"

fun py_iter :: "json \<Rightarrow> json list option" where
  \<comment> \<open>the elements that \<open>for x in v\<close> runs through\<close>
  "py_iter (JArr xs) = Some xs"
| "py_iter (JStr s) = Some (map (\<lambda>c. JStr [c]) s)"
| "py_iter (JObj kvs) = Some (map (\<lambda>kv. JStr (fst kv)) kvs)"
| "py_iter _ = None"

fun contains :: "string \<Rightarrow> string \<Rightarrow> bool" where
  \<comment> \<open>\<open>needle in s\<close> for two strings\<close>
  "contains needle [] = (needle = [])"
| "contains needle (c # cs) = (take (length needle) (c # cs) = needle \<or> contains needle cs)"

fun py_in :: "string \<Rightarrow> json \<Rightarrow> bool option" where
  \<comment> \<open>\<open>"needle" in x\<close>\<close>
  "py_in needle (JStr s) = Some (contains needle s)"
| "py_in needle (JArr xs) = Some (JStr needle \<in> set xs)"
| "py_in needle (JObj kvs) = Some (needle \<in> fst ` set kvs)"
| "py_in needle _ = None"

text \<open>
  \<open>round(x, 4)\<close>: on the exact value, to the nearest multiple of \<open>1/10000\<close>, a tie going to
  the even one; an infinity or a NaN is returned as it is, \<open>True\<close> and \<open>False\<close> are the
  integers 1 and 0, and every other value raises.
\<close>

definition round4 :: "rat \<Rightarrow> rat" where
  "round4 x =
     (let y = x * 10000;
          f = \<lfloor>y\<rfloor>;
          d = y - of_int f
      in (if d < 1 / 2 then of_int f
          else if 1 / 2 < d then of_int (f + 1)
          else if even f then of_int f else of_int (f + 1)) / 10000)"

fun py_round4 :: "json \<Rightarrow> json option" where
  "py_round4 (JNum (Finite x)) = Some (JNum (Finite (round4 x)))"
| "py_round4 (JNum x) = Some (JNum x)"
| "py_round4 (JBool b) = Some (JNum (Finite (if b then 1 else 0)))"
| "py_round4 _ = None"

definition py_int_json :: "nat \<Rightarrow> json" where
  \<comment> \<open>a Python \<open>int\<close> such as \<open>len(xs)\<close>, as a JSON number\<close>
  "py_int_json n = JNum (Finite (of_nat n))"

text \<open>\<open>a == b\<close> on two rounded coordinates: a NaN is equal to nothing.\<close>

fun py_eq_num :: "json \<Rightarrow> json \<Rightarrow> bool" where
  "py_eq_num (JNum NaN) b = False"
| "py_eq_num a b = (a = b)"

fun pt_ne :: "json \<Rightarrow> json \<Rightarrow> bool" where
  \<comment> \<open>\<open>p != q\<close> on two points \<open>[lon, lat]\<close>\<close>
  "pt_ne (JArr [x1, y1]) (JArr [x2, y2]) = (\<not> (py_eq_num x1 x2 \<and> py_eq_num y1 y2))"
| "pt_ne p q = (p \<noteq> q)"

section \<open>Tracks\<close>

text \<open>
  \<open>fetch_glider_track\<close>. The argument is the decoded body of the trajectory request, \<open>None\<close>
  when the request failed, answered with another status than 200 or had no JSON body.
  Everything runs inside \<open>try: ... except Exception: return []\<close>. The track is kept with
  the index of the row each point comes from.
\<close>

fun unpack3 :: "json \<Rightarrow> (json \<times> json \<times> json) option" where
  \<comment> \<open>\<open>a, b, c = row\<close>\<close>
  "unpack3 (JArr [a, b, c]) = Some (a, b, c)"
| "unpack3 (JStr [a, b, c]) = Some (JStr [a], JStr [b], JStr [c])"
| "unpack3 (JObj [a, b, c]) = Some (JStr (fst a), JStr (fst b), JStr (fst c))"
| "unpack3 _ = None"

definition row_point :: "json \<Rightarrow> json option option" where
  \<comment> \<open>the point \<open>[lon, lat]\<close> of a row \<open>[time, lat, lon]\<close>, \<open>Some None\<close> when a coordinate is null\<close>
  "row_point row =
     do {
       (time, lat, lon) \<leftarrow> unpack3 row;
       if lat \<noteq> JNull \<and> lon \<noteq> JNull
       then do { x \<leftarrow> py_round4 lon; y \<leftarrow> py_round4 lat; Some (Some (JArr [x, y])) }
       else Some None
     }"

fun strided :: "json \<Rightarrow> nat list \<Rightarrow> (nat \<times> json) list option" where
  "strided rows [] = Some []"
| "strided rows (i # is) =
     do {
       row \<leftarrow> py_item rows i;
       p \<leftarrow> row_point row;
       rest \<leftarrow> strided rows is;
       Some (case p of None \<Rightarrow> rest | Some pt \<Rightarrow> (i, pt) # rest)
     }"

definition glider_track_indexed :: "json \<Rightarrow> (nat \<times> json) list option" where
  "glider_track_indexed rows =
     (if \<not> truthy rows then Some []
      else
        do {
          n \<leftarrow> py_len rows;
          let step = max 1 (n div 200);
          track \<leftarrow> strided rows (map (\<lambda>j. j * step) [0 ..< (n + step - 1) div step]);
          last_row \<leftarrow> py_last rows;
          last \<leftarrow> row_point last_row;
          Some (case last of
                  None \<Rightarrow> track
                | Some last_pt \<Rightarrow>
                    if track = [] \<or> pt_ne (snd (List.last track)) last_pt
                    then track @ [(n - 1, last_pt)]
                    else track)
        })"

definition fetch_glider_track :: "json option \<Rightarrow> json list" where
  "fetch_glider_track resp =
     (case do {
             data \<leftarrow> resp;
             table \<leftarrow> py_get data ''table'' (JObj []);
             rows \<leftarrow> py_get table ''rows'' (JArr []);
             glider_track_indexed rows
           }
      of None \<Rightarrow> [] | Some track \<Rightarrow> map snd track)"

text \<open>
  The drifter track of \<open>update_drifters\<close>: the comprehension over the rows
  \<open>[latitude, longitude, time]\<close>, and \<open>track[-200:]\<close>.
\<close>

definition drifter_point :: "json \<Rightarrow> json option option" where
  "drifter_point r =
     do {
       a \<leftarrow> py_item r 0;
       if a = JNull then Some None
       else
         do {
           b \<leftarrow> py_item r 1;
           if b = JNull then Some None
           else do { x \<leftarrow> py_round4 b; y \<leftarrow> py_round4 a; Some (Some (JArr [x, y])) }
         }
     }"

fun drifter_track :: "json list \<Rightarrow> json list option" where
  "drifter_track [] = Some []"
| "drifter_track (r # rs) =
     do {
       p \<leftarrow> drifter_point r;
       rest \<leftarrow> drifter_track rs;
       Some (case p of None \<Rightarrow> rest | Some pt \<Rightarrow> pt # rest)
     }"

section \<open>Discovery and the per-category extractors\<close>

text \<open>
  \<open>fetch_aquaview_items\<close>, on the decoded body of the search request: the elements that
  the extractor's loop \<open>for item in items\<close> runs through.
\<close>

fun py_subscript :: "json \<Rightarrow> string \<Rightarrow> json option" where
  \<comment> \<open>\<open>x["key"]\<close>\<close>
  "py_subscript (JObj kvs) k = map_of kvs k"
| "py_subscript _ k = None"

definition fetch_aquaview_items :: "json option \<Rightarrow> json list option" where
  "fetch_aquaview_items data =
     (case data of
        None \<Rightarrow> Some []
      | Some d \<Rightarrow>
          if \<not> truthy d then Some []
          else
            do {
              has \<leftarrow> py_in ''features'' d;
              if has
              then do { items \<leftarrow> py_subscript d ''features''; n \<leftarrow> py_len items; py_iter items }
              else Some []
            })"

definition document :: "string \<Rightarrow> string \<Rightarrow> json list \<Rightarrow> json" where
  \<comment> \<open>\<open>{"updated": now, "count": len(records), key: records}\<close>\<close>
  "document now key records =
     JObj [(''updated'', JStr now), (''count'', py_int_json (length records)), (key, JArr records)]"

definition is_point :: "json \<Rightarrow> json \<Rightarrow> bool option" where
  \<comment> \<open>the negation of \<open>geom.get("type") != "Point" or len(coords) < 2\<close>\<close>
  "is_point geom coords =
     do {
       ty \<leftarrow> py_get geom ''type'' JNull;
       if ty \<noteq> JStr ''Point'' then Some False
       else do { n \<leftarrow> py_len coords; Some (2 \<le> n) }
     }"

definition station_id_of :: "json \<Rightarrow> json option" where
  \<comment> \<open>\<open>sid.split("_")[-1] if "_" in sid else sid\<close>\<close>
  "station_id_of sid =
     do {
       has \<leftarrow> py_in ''_'' sid;
       if has
       then (case sid of JStr s \<Rightarrow> Some (JStr (last (split_on (CHR ''_'') s))) | _ \<Rightarrow> None)
       else Some sid
     }"

text \<open>
  \<open>update_ndbc_met\<close>. One item gives \<open>None\<close> (an exception), \<open>Some None\<close> (\<open>continue\<close>) or the
  station id with the dict \<open>buoy\<close> before the live reading.
\<close>

definition ndbc_buoy :: "json \<Rightarrow> (json \<times> (string \<times> json) list) option option" where
  "ndbc_buoy item =
     do {
       props \<leftarrow> py_get item ''properties'' (JObj []);
       geom \<leftarrow> py_get item ''geometry'' (JObj []);
       coords \<leftarrow> py_get geom ''coordinates'' (JArr [JNull, JNull]);
       point \<leftarrow> is_point geom coords;
       if \<not> point then Some None
       else
         do {
           sid \<leftarrow> py_get item ''id'' (JStr []);
           station_id \<leftarrow> station_id_of sid;
           lat \<leftarrow> py_item coords 1;
           lon \<leftarrow> py_item coords 0;
           variables \<leftarrow> py_get props ''aquaview:variables'' (JArr []);
           rlat \<leftarrow> py_round4 lat;
           rlon \<leftarrow> py_round4 lon;
           title \<leftarrow> py_get props ''title'' station_id;
           title80 \<leftarrow> py_take 80 title;
           vars8 \<leftarrow> py_take 8 variables;
           Some (Some (station_id,
                       [(''id'', station_id), (''lat'', rlat), (''lon'', rlon),
                        (''title'', title80), (''vars'', vars8)]))
         }
     }"

definition ndbc_txt_url :: "builtins \<Rightarrow> json \<Rightarrow> string" where
  \<comment> \<open>\<open>NDBC_TXT_URL.format(station=station_id)\<close>\<close>
  "ndbc_txt_url B station_id =
     ''https://www.ndbc.noaa.gov/data/realtime2/'' @ py_str B station_id @ ''.txt''"

fun ndbc_loop :: "builtins \<Rightarrow> network \<Rightarrow> json list \<Rightarrow> nat \<Rightarrow> (json list \<times> nat) option" where
  "ndbc_loop B N [] fetched = Some ([], fetched)"
| "ndbc_loop B N (item # items) fetched =
     do {
       r \<leftarrow> ndbc_buoy item;
       case r of
         None \<Rightarrow> ndbc_loop B N items fetched
       | Some (station_id, buoy) \<Rightarrow>
           let readings =
                 (if fetched < 200
                  then parse_ndbc_met_txt B (fetch_url N (ndbc_txt_url B station_id))
                  else None)
           in (case readings of
                 None \<Rightarrow>
                   do { (buoys, n) \<leftarrow> ndbc_loop B N items fetched; Some (JObj buoy # buoys, n) }
               | Some rd \<Rightarrow>
                   if rd = []
                   then do { (buoys, n) \<leftarrow> ndbc_loop B N items fetched; Some (JObj buoy # buoys, n) }
                   else
                     do {
                       (buoys, n) \<leftarrow> ndbc_loop B N items (fetched + 1);
                       Some (JObj (AList.update ''current'' (JObj rd) buoy) # buoys, n)
                     })
     }"

definition update_ndbc_met :: "builtins \<Rightarrow> network \<Rightarrow> string \<Rightarrow> json option \<Rightarrow> json option" where
  \<comment> \<open>the document saved to \<open>ndbc_met.json\<close>; \<open>None\<close> when an exception ends the extractor\<close>
  "update_ndbc_met B N now search =
     do {
       items \<leftarrow> fetch_aquaview_items search;
       (buoys, fetched) \<leftarrow> ndbc_loop B N items 0;
       Some (document now ''buoys'' buoys)
     }"

text \<open>\<open>update_coops\<close>: the stations, then the water level of the first 100 of them.\<close>

definition coops_station :: "json \<Rightarrow> (string \<times> json) list option option" where
  "coops_station item =
     do {
       props \<leftarrow> py_get item ''properties'' (JObj []);
       geom \<leftarrow> py_get item ''geometry'' (JObj []);
       coords \<leftarrow> py_get geom ''coordinates'' (JArr [JNull, JNull]);
       point \<leftarrow> is_point geom coords;
       if \<not> point then Some None
       else
         do {
           sid \<leftarrow> py_get item ''id'' (JStr []);
           station_id \<leftarrow> station_id_of sid;
           lat \<leftarrow> py_item coords 1;
           lon \<leftarrow> py_item coords 0;
           rlat \<leftarrow> py_round4 lat;
           rlon \<leftarrow> py_round4 lon;
           title \<leftarrow> py_get props ''title'' station_id;
           title80 \<leftarrow> py_take 80 title;
           variables \<leftarrow> py_get props ''aquaview:variables'' (JArr []);
           vars6 \<leftarrow> py_take 6 variables;
           source_url \<leftarrow> py_get props ''aquaview:source_url'' (JStr []);
           src200 \<leftarrow> py_take 200 source_url;
           Some (Some [(''id'', station_id), (''lat'', rlat), (''lon'', rlon),
                       (''title'', title80), (''vars'', vars6), (''src'', src200)])
         }
     }"

fun coops_stations :: "json list \<Rightarrow> (string \<times> json) list list option" where
  "coops_stations [] = Some []"
| "coops_stations (item # items) =
     do {
       r \<leftarrow> coops_station item;
       rest \<leftarrow> coops_stations items;
       Some (case r of None \<Rightarrow> rest | Some s \<Rightarrow> s # rest)
     }"

definition py_float_of :: "builtins \<Rightarrow> json \<Rightarrow> pyfloat option" where
  \<comment> \<open>\<open>float(x)\<close>; an \<open>int\<close> too large for a \<open>float\<close> raises \<open>OverflowError\<close>\<close>
  "py_float_of B x =
     (case x of
        JStr s \<Rightarrow> py_float B s
      | JNum (Finite r) \<Rightarrow> if \<bar>r\<bar> < 2 ^ 1024 - 2 ^ 970 then Some (Finite r) else None
      | JNum v \<Rightarrow> Some v
      | JBool b \<Rightarrow> Some (Finite (if b then 1 else 0))
      | _ \<Rightarrow> None)"

definition coops_current :: "builtins \<Rightarrow> json option \<Rightarrow> (string \<times> json) list option" where
  \<comment> \<open>the dict stored in \<open>s["current"]\<close>; \<open>None\<close> when the test fails or an exception is
      caught by \<open>except Exception: pass\<close>\<close>
  "coops_current B data =
     (case data of
        None \<Rightarrow> None
      | Some d \<Rightarrow>
          if \<not> truthy d then None
          else
            do {
              has \<leftarrow> py_in ''data'' d;
              if \<not> has then None
              else
                do {
                  dd \<leftarrow> py_subscript d ''data'';
                  if \<not> truthy dd then None
                  else
                    do {
                      latest \<leftarrow> py_last dd;
                      v \<leftarrow> py_get latest ''v'' (JNum (Finite 0));
                      wl \<leftarrow> py_float_of B v;
                      t \<leftarrow> py_get latest ''t'' (JStr []);
                      Some [(''wl'', JNum wl), (''time'', t)]
                    }
                }
            })"

definition coops_url :: "builtins \<Rightarrow> json \<Rightarrow> string" where
  "coops_url B station_id =
     ''https://api.tidesandcurrents.noaa.gov/api/prod/datagetter?date=latest&station=''
       @ py_str B station_id
       @ ''&product=water_level&datum=MLLW&units=metric&time_zone=gmt&format=json''"

definition coops_live :: "builtins \<Rightarrow> network \<Rightarrow> (string \<times> json) list \<Rightarrow> (string \<times> json) list" where
  \<comment> \<open>the body of \<open>for s in stations[:100]\<close>\<close>
  "coops_live B N s =
     (case map_of s ''id'' of
        None \<Rightarrow> s
      | Some station_id \<Rightarrow>
          (case coops_current B (fetch_json N (coops_url B station_id)) of
             None \<Rightarrow> s
           | Some cur \<Rightarrow> AList.update ''current'' (JObj cur) s))"

definition update_coops :: "builtins \<Rightarrow> network \<Rightarrow> string \<Rightarrow> json option \<Rightarrow> json option" where
  "update_coops B N now search =
     do {
       items \<leftarrow> fetch_aquaview_items search;
       stations \<leftarrow> coops_stations items;
       let stations = map (coops_live B N) (take 100 stations) @ drop 100 stations;
       Some (document now ''stations'' (map JObj stations))
     }"

text \<open>\<open>update_ioos_sensors\<close>.\<close>

definition sensor_position :: "json \<Rightarrow> json \<Rightarrow> (json \<times> json) option option" where
  \<comment> \<open>\<open>(lon, lat)\<close> of a point or of the first point of a multipoint; \<open>Some None\<close> is \<open>continue\<close>\<close>
  "sensor_position ty coords =
     (if ty = JStr ''Point''
      then do {
             n \<leftarrow> py_len coords;
             if 2 \<le> n
             then do { lon \<leftarrow> py_item coords 0; lat \<leftarrow> py_item coords 1; Some (Some (lon, lat)) }
             else Some None
           }
      else if ty = JStr ''MultiPoint'' \<and> truthy coords
      then do {
             c0 \<leftarrow> py_item coords 0;
             lon \<leftarrow> py_item c0 0;
             lat \<leftarrow> py_item c0 1;
             Some (Some (lon, lat))
           }
      else Some None)"

definition ioos_sensor :: "json \<Rightarrow> (string \<times> json) list option option" where
  "ioos_sensor item =
     do {
       props \<leftarrow> py_get item ''properties'' (JObj []);
       geom \<leftarrow> py_get item ''geometry'' (JObj []);
       coords \<leftarrow> py_get geom ''coordinates'' (JArr [JNull, JNull]);
       ty \<leftarrow> py_get geom ''type'' JNull;
       pos \<leftarrow> sensor_position ty coords;
       case pos of
         None \<Rightarrow> Some None
       | Some (lon, lat) \<Rightarrow>
           do {
             variables \<leftarrow> py_get props ''aquaview:variables'' (JArr []);
             source_url \<leftarrow> py_get props ''aquaview:source_url'' (JStr []);
             unknown \<leftarrow> py_get item ''id'' (JStr ''Unknown'');
             title \<leftarrow> py_get props ''title'' unknown;
             ident \<leftarrow> py_get item ''id'' (JStr []);
             title80 \<leftarrow> py_take 80 title;
             rlat \<leftarrow> py_round4 lat;
             rlon \<leftarrow> py_round4 lon;
             vars10 \<leftarrow> py_take 10 variables;
             src200 \<leftarrow> py_take 200 source_url;
             org \<leftarrow> py_get props ''aquaview:organization'' (JStr []);
             Some (Some [(''id'', ident), (''title'', title80), (''lat'', rlat), (''lon'', rlon),
                         (''vars'', vars10), (''src'', src200), (''org'', org)])
           }
     }"

fun collect :: "(json \<Rightarrow> (string \<times> json) list option option) \<Rightarrow> json list \<Rightarrow> json list option" where
  \<comment> \<open>the loop \<open>for item in items\<close> of an extractor whose body appends a record or continues\<close>
  "collect f [] = Some []"
| "collect f (item # items) =
     do {
       r \<leftarrow> f item;
       rest \<leftarrow> collect f items;
       Some (case r of None \<Rightarrow> rest | Some record \<Rightarrow> JObj record # rest)
     }"

definition update_ioos_sensors :: "string \<Rightarrow> json option \<Rightarrow> json option" where
  "update_ioos_sensors now search =
     do {
       items \<leftarrow> fetch_aquaview_items search;
       sensors \<leftarrow> collect ioos_sensor items;
       Some (document now ''sensors'' sensors)
     }"

text \<open>\<open>update_incidents\<close>.\<close>

fun first_alternate :: "json list \<Rightarrow> json option" where
  \<comment> \<open>\<open>next((l.get("href", "") for l in links if l.get("rel") == "alternate"), "")\<close>\<close>
  "first_alternate [] = Some (JStr [])"
| "first_alternate (l # ls) =
     do {
       rel \<leftarrow> py_get l ''rel'' JNull;
       if rel = JStr ''alternate'' then py_get l ''href'' (JStr []) else first_alternate ls
     }"

definition incident :: "json \<Rightarrow> (string \<times> json) list option option" where
  "incident item =
     do {
       props \<leftarrow> py_get item ''properties'' (JObj []);
       geom \<leftarrow> py_get item ''geometry'' (JObj []);
       coords \<leftarrow> py_get geom ''coordinates'' (JArr [JNull, JNull]);
       point \<leftarrow> is_point geom coords;
       if \<not> point then Some None
       else
         do {
           lat \<leftarrow> py_item coords 1;
           lon \<leftarrow> py_item coords 0;
           ident \<leftarrow> py_get item ''id'' (JStr []);
           title \<leftarrow> py_get props ''title'' (JStr ''Unknown Incident'');
           title120 \<leftarrow> py_take 120 title;
           rlat \<leftarrow> py_round4 lat;
           rlon \<leftarrow> py_round4 lon;
           start \<leftarrow> py_get props ''start_datetime'' (JStr []);
           date \<leftarrow> py_get props ''datetime'' start;
           description \<leftarrow> py_get props ''description'' (JStr []);
           desc300 \<leftarrow> py_take 300 description;
           links \<leftarrow> py_get item ''links'' (JArr []);
           ls \<leftarrow> py_iter links;
           url \<leftarrow> first_alternate ls;
           Some (Some [(''id'', ident), (''title'', title120), (''lat'', rlat), (''lon'', rlon),
                       (''date'', date), (''desc'', desc300), (''url'', url)])
         }
     }"

definition date_key :: "json \<Rightarrow> json" where
  \<comment> \<open>\<open>x.get("date", "")\<close> on a record\<close>
  "date_key x = (case py_get x ''date'' (JStr []) of None \<Rightarrow> JStr [] | Some d \<Rightarrow> d)"

definition update_incidents :: "builtins \<Rightarrow> string \<Rightarrow> json option \<Rightarrow> json option" where
  "update_incidents B now search =
     do {
       items \<leftarrow> fetch_aquaview_items search;
       incidents \<leftarrow> collect incident items;
       incidents \<leftarrow> py_sort_desc B (map (\<lambda>x. (date_key x, x)) incidents);
       Some (document now ''incidents'' incidents)
     }"

text \<open>\<open>update_pmel\<close>.\<close>

definition probe :: "json \<Rightarrow> (string \<times> json) list option option" where
  "probe item =
     do {
       props \<leftarrow> py_get item ''properties'' (JObj []);
       geom \<leftarrow> py_get item ''geometry'' (JObj []);
       coords \<leftarrow> py_get geom ''coordinates'' (JArr [JNull, JNull]);
       point \<leftarrow> is_point geom coords;
       if \<not> point then Some None
       else
         do {
           lat \<leftarrow> py_item coords 1;
           lon \<leftarrow> py_item coords 0;
           ident \<leftarrow> py_get item ''id'' (JStr []);
           title \<leftarrow> py_get props ''title'' ident;
           title80 \<leftarrow> py_take 80 title;
           rlat \<leftarrow> py_round4 lat;
           rlon \<leftarrow> py_round4 lon;
           variables \<leftarrow> py_get props ''aquaview:variables'' (JArr []);
           vars6 \<leftarrow> py_take 6 variables;
           start \<leftarrow> py_get props ''start_datetime'' (JStr []);
           date \<leftarrow> py_get props ''datetime'' start;
           source_url \<leftarrow> py_get props ''aquaview:source_url'' (JStr []);
           src200 \<leftarrow> py_take 200 source_url;
           Some (Some [(''id'', ident), (''title'', title80), (''lat'', rlat), (''lon'', rlon),
                       (''vars'', vars6), (''date'', date), (''src'', src200)])
         }
     }"

definition update_pmel :: "string \<Rightarrow> json option \<Rightarrow> json option" where
  "update_pmel now search =
     do {
       items \<leftarrow> fetch_aquaview_items search;
       probes \<leftarrow> collect probe items;
       Some (document now ''probes'' probes)
     }"

text \<open>\<open>update_gliders\<close>.\<close>

definition lower :: "string \<Rightarrow> string" where
  \<comment> \<open>\<open>s.lower()\<close> on the code points below 256\<close>
  "lower s =
     map (\<lambda>c. let n = (of_char c :: nat)
              in if (65 \<le> n \<and> n \<le> 90) \<or> (192 \<le> n \<and> n \<le> 222 \<and> n \<noteq> 215)
                 then char_of (n + 32) else c) s"

definition glider_keywords :: "string list" where
  "glider_keywords = [''glider'', ''slocum'', ''spray'', ''seaglider'', ''sg'', ''ru'', ''usf'']"

definition glider_base :: "builtins \<Rightarrow> json \<Rightarrow> string option" where
  \<comment> \<open>\<open>erddap_base\<close>: the default, or \<open>scheme://netloc/erddap\<close> of the source URL\<close>
  "glider_base B erddap_src =
     do {
       has \<leftarrow> py_in ''erddap'' erddap_src;
       Some (if has
             then (case py_urlparse B erddap_src of
                     None \<Rightarrow> ''https://gliders.ioos.us/erddap''
                   | Some (scheme, netloc) \<Rightarrow> scheme @ ''://'' @ netloc @ ''/erddap'')
             else ''https://gliders.ioos.us/erddap'')
     }"

definition glider_track_url :: "builtins \<Rightarrow> string \<Rightarrow> json \<Rightarrow> string" where
  "glider_track_url B erddap_base dataset_id =
     erddap_base @ ''/tabledap/'' @ py_str B dataset_id
       @ ''.json?time,latitude,longitude&orderBy(%22time%22)''"

fun py_last_n :: "nat \<Rightarrow> json \<Rightarrow> json list option" where
  \<comment> \<open>the elements of \<open>x[-n:]\<close>\<close>
  "py_last_n n (JArr xs) = Some (last_n n xs)"
| "py_last_n n (JStr s) = Some (map (\<lambda>c. JStr [c]) (last_n n s))"
| "py_last_n n _ = None"

fun points :: "json list \<Rightarrow> json list option" where
  \<comment> \<open>\<open>[[round(c[0], 4), round(c[1], 4)] for c in cs]\<close>\<close>
  "points [] = Some []"
| "points (c # cs) =
     do {
       a \<leftarrow> py_item c 0;
       x \<leftarrow> py_round4 a;
       b \<leftarrow> py_item c 1;
       y \<leftarrow> py_round4 b;
       rest \<leftarrow> points cs;
       Some (JArr [x, y] # rest)
     }"

fun num_of :: "json \<Rightarrow> pyfloat option" where
  "num_of (JNum v) = Some v"
| "num_of (JBool b) = Some (Finite (if b then 1 else 0))"
| "num_of _ = None"

fun fadd :: "pyfloat \<Rightarrow> pyfloat \<Rightarrow> pyfloat" where
  "fadd (Finite a) (Finite b) = Finite (a + b)"
| "fadd NaN _ = NaN"
| "fadd _ NaN = NaN"
| "fadd PosInf NegInf = NaN"
| "fadd NegInf PosInf = NaN"
| "fadd PosInf _ = PosInf"
| "fadd _ PosInf = PosInf"
| "fadd NegInf _ = NegInf"
| "fadd _ NegInf = NegInf"

fun half :: "pyfloat \<Rightarrow> pyfloat" where
  "half (Finite a) = Finite (a / 2)"
| "half v = v"

definition midpoint :: "json \<Rightarrow> json \<Rightarrow> json option" where
  \<comment> \<open>\<open>(a + b) / 2\<close>: two strings or two lists are added and then the division raises\<close>
  "midpoint a b = do { x \<leftarrow> num_of a; y \<leftarrow> num_of b; Some (JNum (half (fadd x y))) }"

definition fallback_track :: "json \<Rightarrow> json \<Rightarrow> json list option option" where
  \<comment> \<open>the track from the STAC geometry; \<open>Some None\<close> is \<open>continue\<close>\<close>
  "fallback_track item geom =
     do {
       coords \<leftarrow> py_get geom ''coordinates'' (JArr []);
       geom_type \<leftarrow> py_get geom ''type'' (JStr []);
       line \<leftarrow> (if geom_type = JStr ''LineString''
                then do { n \<leftarrow> py_len coords; Some (2 \<le> n) }
                else Some False);
       if line then do { cs \<leftarrow> py_last_n 100 coords; track \<leftarrow> points cs; Some (Some track) }
       else if geom_type = JStr ''Point''
       then do {
              a \<leftarrow> py_item coords 0;
              x \<leftarrow> py_round4 a;
              b \<leftarrow> py_item coords 1;
              y \<leftarrow> py_round4 b;
              Some (Some [JArr [x, y]])
            }
       else if geom_type = JStr ''MultiPoint''
       then do { cs \<leftarrow> py_last_n 100 coords; track \<leftarrow> points cs; Some (Some track) }
       else
         do {
           bbox \<leftarrow> py_get item ''bbox'' JNull;
           big \<leftarrow> (if truthy bbox then do { n \<leftarrow> py_len bbox; Some (4 \<le> n) } else Some False);
           if big
           then do {
                  b0 \<leftarrow> py_item bbox 0;
                  b2 \<leftarrow> py_item bbox 2;
                  cx \<leftarrow> midpoint b0 b2;
                  b1 \<leftarrow> py_item bbox 1;
                  b3 \<leftarrow> py_item bbox 3;
                  cy \<leftarrow> midpoint b1 b3;
                  x \<leftarrow> py_round4 cx;
                  y \<leftarrow> py_round4 cy;
                  Some (Some [JArr [x, y]])
                }
           else Some None
         }
     }"

definition glider :: "builtins \<Rightarrow> network \<Rightarrow> json \<Rightarrow> (string \<times> json) list option option" where
  "glider B N item =
     do {
       props \<leftarrow> py_get item ''properties'' (JObj []);
       geom \<leftarrow> py_get item ''geometry'' (JObj []);
       ident \<leftarrow> py_get item ''id'' (JStr []);
       title \<leftarrow> py_get props ''title'' ident;
       t \<leftarrow> (case title of JStr s \<Rightarrow> Some s | _ \<Rightarrow> None);
       if \<not> list_ex (\<lambda>kw. contains kw (lower t)) glider_keywords then Some None
       else
         do {
           dataset_id \<leftarrow> py_get item ''id'' (JStr []);
           erddap_src \<leftarrow> py_get props ''aquaview:source_url'' (JStr []);
           erddap_base \<leftarrow> glider_base B erddap_src;
           let track = fetch_glider_track (fetch_json N (glider_track_url B erddap_base dataset_id));
           tr \<leftarrow> (if track \<noteq> [] \<and> 1 < length track then Some (Some track)
                  else fallback_track item geom);
           case tr of
             None \<Rightarrow> Some None
           | Some track \<Rightarrow>
               do {
                 variables \<leftarrow> py_get props ''aquaview:variables'' (JArr []);
                 vars6 \<leftarrow> py_take 6 variables;
                 dt \<leftarrow> py_get props ''datetime'' (JStr []);
                 start \<leftarrow> py_get props ''start_datetime'' dt;
                 end_dt \<leftarrow> py_get props ''end_datetime'' (JStr []);
                 src200 \<leftarrow> py_take 200 erddap_src;
                 Some (Some [(''id'', dataset_id), (''title'', JStr (take 80 t)),
                             (''track'', JArr track), (''vars'', vars6), (''start'', start),
                             (''end'', end_dt), (''src'', src200)])
               }
         }
     }"

definition update_gliders :: "builtins \<Rightarrow> network \<Rightarrow> string \<Rightarrow> json option \<Rightarrow> json option" where
  "update_gliders B N now search =
     do {
       items \<leftarrow> fetch_aquaview_items search;
       gliders \<leftarrow> collect (glider B N) items;
       Some (document now ''gliders'' gliders)
     }"

text \<open>\<open>update_drifters\<close>.\<close>

definition rstrip_slash :: "string \<Rightarrow> string" where
  \<comment> \<open>\<open>s.rstrip("/")\<close>\<close>
  "rstrip_slash s = rev (dropWhile (\<lambda>c. c = CHR ''/'') (rev s))"

definition drifter_url :: "string \<Rightarrow> string" where
  "drifter_url erddap_base =
     erddap_base
       @ ''.json?latitude,longitude,time&latitude>=18&latitude<=32&longitude>=-98&longitude<=-80''
       @ ''&orderByLimit(%22time,50%22)''"

definition erddap_drifter :: "network \<Rightarrow> json \<Rightarrow> json \<Rightarrow> json \<Rightarrow> (string \<times> json) list option option" where
  \<comment> \<open>the branch \<open>if source_url and "erddap" in source_url\<close>; \<open>Some None\<close> falls through to
      the geometry of the item\<close>
  "erddap_drifter N item title source_url =
     do {
       s \<leftarrow> (case source_url of JStr s \<Rightarrow> Some s | _ \<Rightarrow> None);
       let erddap_base = rstrip_slash s;
       let dataset_id = (if CHR ''/'' \<in> set erddap_base
                         then last (split_on (CHR ''/'') erddap_base) else []);
       if dataset_id = [] then Some None
       else
         (case fetch_json N (drifter_url erddap_base) of
            None \<Rightarrow> Some None
          | Some data \<Rightarrow>
              if \<not> truthy data then Some None
              else
                do {
                  has \<leftarrow> py_in ''table'' data;
                  if \<not> has then Some None
                  else
                    do {
                      table \<leftarrow> py_subscript data ''table'';
                      rows \<leftarrow> py_get table ''rows'' (JArr []);
                      if \<not> truthy rows then Some None
                      else
                        do {
                          rs \<leftarrow> py_iter rows;
                          track \<leftarrow> drifter_track rs;
                          if track = [] then Some None
                          else
                            do {
                              ident \<leftarrow> py_get item ''id'' (JStr []);
                              title80 \<leftarrow> py_take 80 title;
                              src200 \<leftarrow> py_take 200 source_url;
                              Some (Some [(''id'', ident), (''title'', title80),
                                          (''track'', JArr (last_n 200 track)),
                                          (''count'', py_int_json (length track)),
                                          (''src'', src200)])
                            }
                        }
                    }
                })
     }"

definition drifter :: "network \<Rightarrow> json \<Rightarrow> (string \<times> json) list option option" where
  "drifter N item =
     do {
       props \<leftarrow> py_get item ''properties'' (JObj []);
       geom \<leftarrow> py_get item ''geometry'' (JObj []);
       ident \<leftarrow> py_get item ''id'' (JStr []);
       title \<leftarrow> py_get props ''title'' ident;
       source_url \<leftarrow> py_get props ''aquaview:source_url'' (JStr []);
       use \<leftarrow> (if truthy source_url then py_in ''erddap'' source_url else Some False);
       r \<leftarrow> (if use then erddap_drifter N item title source_url else Some None);
       case r of
         Some record \<Rightarrow> Some (Some record)
       | None \<Rightarrow>
           do {
             coords \<leftarrow> py_get geom ''coordinates'' (JArr []);
             geom_type \<leftarrow> py_get geom ''type'' (JStr []);
             point \<leftarrow> (if geom_type = JStr ''Point''
                       then do { n \<leftarrow> py_len coords; Some (2 \<le> n) }
                       else Some False);
             if \<not> point then Some None
             else
               do {
                 title80 \<leftarrow> py_take 80 title;
                 a \<leftarrow> py_item coords 0;
                 x \<leftarrow> py_round4 a;
                 b \<leftarrow> py_item coords 1;
                 y \<leftarrow> py_round4 b;
                 src200 \<leftarrow> py_take 200 source_url;
                 Some (Some [(''id'', ident), (''title'', title80), (''track'', JArr [JArr [x, y]]),
                             (''count'', py_int_json 1), (''src'', src200)])
               }
           }
     }"

definition update_drifters :: "network \<Rightarrow> string \<Rightarrow> json option \<Rightarrow> json option" where
  "update_drifters N now search =
     do {
       items \<leftarrow> fetch_aquaview_items search;
       drifters \<leftarrow> collect (drifter N) items;
       Some (document now ''drifters'' drifters)
     }"

text \<open>The invariant of an output document: its \<open>count\<close> is the length of its record list.\<close>

definition count_matches :: "string \<Rightarrow> json \<Rightarrow> bool" where
  "count_matches key doc =
     (case doc of
        JObj kvs \<Rightarrow>
          (case (map_of kvs ''count'', map_of kvs key) of
             (Some c, Some (JArr records)) \<Rightarrow> c = py_int_json (length records)
           | _ \<Rightarrow> False)
      | _ \<Rightarrow> False)"

text \<open>
  \<open>update_station\<close> of \<open>update_stations.py\<close> (and the same steps at the head of the loop
  of \<open>update_ndbc_hypoxia\<close>): the readings of a station, from the \<open>.ocean\<close> feed or, when
  that gives nothing, from the \<open>.txt\<close> feed.
\<close>

definition ndbc_ocean_url :: "builtins \<Rightarrow> json \<Rightarrow> string" where
  \<comment> \<open>\<open>NDBC_OCEAN_URL.format(station=station_id)\<close>\<close>
  "ndbc_ocean_url B station_id =
     ''https://www.ndbc.noaa.gov/data/realtime2/'' @ py_str B station_id @ ''.ocean''"

definition update_station :: "builtins \<Rightarrow> network \<Rightarrow> (string \<times> json) list \<Rightarrow> (string \<times> json) list option option" where
  "update_station B N station =
     do {
       station_id \<leftarrow> map_of station ''id'';
       readings \<leftarrow> parse_ocean_feed B (fetch_url N (ndbc_ocean_url B station_id));
       Some (case readings of
               None \<Rightarrow> parse_txt_feed B (fetch_url N (ndbc_txt_url B station_id))
             | Some r \<Rightarrow>
                 if r \<noteq> [] then Some r
                 else parse_txt_feed B (fetch_url N (ndbc_txt_url B station_id)))
     }"

section \<open>Example inputs\<close>

subsection \<open>Feeds\<close>

definition lines_text :: "string list \<Rightarrow> string" where
  "lines_text ls = concat (map (\<lambda>l. l @ [CHR 0x0A]) ls)"

definition ocean_feed_all_missing :: string where
  "ocean_feed_all_missing = lines_text
     [''#YY  MM DD hh mm   DEPTH  OTMP   COND   SAL   O2%  O2PPM  CLCON  TURB    PH    EH'',
      ''#yr  mo dy hr mn       m  degC  mS/cm   psu     %    ppm   ug/l   FTU     -    mv'',
      ''2024 01 15 12 30      MM    MM     MM    MM    MM     MM     MM    MM    MM    MM'']"

definition met_feed_example :: string where
  "met_feed_example = lines_text
     [''#YY  MM DD hh mm WDIR WSPD GST  WVHT   DPD   APD MWD   PRES  ATMP  WTMP  DEWP  VIS PTDY  TIDE'',
      ''#yr  mo dy hr mn degT m/s  m/s     m   sec   sec degT   hPa  degC  degC  degC  nmi  hPa    ft'',
      ''2024 01 15 12 30 180  5.0  7.0   1.2     8   6.1 170  998.5  20.1  21.5  18.0   MM   MM    MM'']"

definition wtmp_first_feed :: string where
  "wtmp_first_feed = lines_text
     [''WTMP ATMP WDIR WSPD PRES'',
      ''degC degC degT m/s hPa'',
      ''21.5 20.1 180 5.0 998.5'',
      ''21.4 20.0 175 5.5 998.7'']"

subsection \<open>A station and a reading\<close>

definition station_example :: "(string \<times> json) list" where
  "station_example =
     [(''id'', JStr ''42001''),
      (''current'', JObj [(''do'', JNum (Finite 5)), (''last_obs'', JStr ''2024-01-15T06:30:00+00:00'')])]"

definition reading_example :: "(string \<times> json) list" where
  "reading_example = [(''do'', JNum (Finite 6)), (''timestamp'', JStr ''2024-01-15T12:30:00+00:00'')]"

subsection \<open>A trajectory\<close>

text \<open>A trajectory of 1000 rows \<open>[time, lat, lon]\<close>, each with its own position.\<close>

definition trajectory_row :: "nat \<Rightarrow> json" where
  "trajectory_row i =
     JArr [JStr ''2024-01-15T00:00:00Z'',
           JNum (Finite (20 + of_nat i / 1000)), JNum (Finite (of_nat i / 1000 - 90))]"

definition trajectory_1000 :: json where
  "trajectory_1000 = JObj [(''table'', JObj [(''rows'', JArr (map trajectory_row [0 ..< 1000]))])]"

definition trajectory_point :: "nat \<Rightarrow> json" where
  \<comment> \<open>the point \<open>[round(lon, 4), round(lat, 4)]\<close> of row \<open>i\<close>\<close>
  "trajectory_point i =
     JArr [JNum (Finite (round4 (of_nat i / 1000 - 90))), JNum (Finite (round4 (20 + of_nat i / 1000)))]"

subsection \<open>Discovery results and networks\<close>

definition point_feature :: "string \<Rightarrow> rat \<Rightarrow> rat \<Rightarrow> string \<Rightarrow> json" where
  \<comment> \<open>a feature with an id, a point geometry \<open>[lon, lat]\<close> and a title\<close>
  "point_feature sid lon lat title =
     JObj [(''id'', JStr sid),
           (''geometry'', JObj [(''type'', JStr ''Point''),
                                (''coordinates'', JArr [JNum (Finite lon), JNum (Finite lat)])]),
           (''properties'', JObj [(''title'', JStr title)])]"

definition search_result :: "json list \<Rightarrow> json option" where
  "search_result features = Some (JObj [(''features'', JArr features)])"

definition station_name :: "nat \<Rightarrow> string" where
  \<comment> \<open>the station ids \<open>42000\<close>, \<open>42001\<close>, ...\<close>
  "station_name i =
     ''42'' @ [''0123456789'' ! (i div 100 mod 10), ''0123456789'' ! (i div 10 mod 10),
               ''0123456789'' ! (i mod 10)]"

definition buoy_feature :: "string \<Rightarrow> json" where
  "buoy_feature name = point_feature name (- 90) (51 / 2) name"

definition buoy_record :: "string \<Rightarrow> (string \<times> json) list" where
  "buoy_record name =
     [(''id'', JStr name), (''lat'', JNum (Finite (51 / 2))), (''lon'', JNum (Finite (- 90))),
      (''title'', JStr name), (''vars'', JArr [])]"

definition met_readings_example :: "(string \<times> json) list" where
  "met_readings_example =
     [(''wspd'', JNum (Finite 5)), (''wdir'', JNum (Finite 180)),
      (''wvht'', JNum (Finite (6 / 5))), (''dpd'', JNum (Finite 8)),
      (''pres'', JNum (Finite (1997 / 2))), (''atmp'', JNum (Finite (201 / 10))),
      (''wtmp'', JNum (Finite (43 / 2)))]"

definition one_silent_station :: network where
  \<comment> \<open>station \<open>41000\<close> has no \<open>.txt\<close> feed, every other station serves the example feed\<close>
  "one_silent_station =
     \<lparr>fetch_url = (\<lambda>url. if url = ndbc_txt_url plain (JStr ''41000'') then None
                          else Some met_feed_example),
      fetch_json = (\<lambda>url. None)\<rparr>"

definition level_without_value :: network where
  \<comment> \<open>the tide API answers with a latest reading that has a time and no value \<open>v\<close>\<close>
  "level_without_value =
     \<lparr>fetch_url = (\<lambda>url. None),
      fetch_json = (\<lambda>url. Some (JObj [(''data'', JArr [JObj [(''t'', JStr ''2024-01-15 12:30'')]])]))\<rparr>"

definition ocean_without_fields :: network where
  \<comment> \<open>station \<open>42001\<close>: an \<open>.ocean\<close> feed with a date and no value, a \<open>.txt\<close> feed with values\<close>
  "ocean_without_fields =
     \<lparr>fetch_url = (\<lambda>url. if url = ndbc_ocean_url plain (JStr ''42001'') then Some ocean_feed_all_missing
                          else if url = ndbc_txt_url plain (JStr ''42001'') then Some met_feed_example
                          else None),
      fetch_json = (\<lambda>url. None)\<rparr>"

definition example_search :: "json option" where
  "example_search = search_result [buoy_feature ''42001'']"

definition example_now :: string where
  "example_now = ''2024-01-15T12:00:00Z''"

section \<open>Sentinel strings and thresholds of the field readers\<close>

lemma sentinel_float_ge_50:
  assumes "float_reads_sentinels B" "S \<in> set sentinels" "py_float B S = Some v"
  shows "\<not> lt_num v 50"
proof -
  have "py_float B S \<in> set (map (py_float B) sentinels)"
    using assms(2) by simp
  then have "Some v \<in> set [None, Some (Finite 99), Some (Finite 999), Some (Finite 9999),
         Some (Finite 99), Some (Finite 999), Some (Finite 9999)]"
    using assms(1,3) unfolding float_reads_sentinels_def by simp
  then have "v = Finite 99 \<or> v = Finite 999 \<or> v = Finite 9999"
    by auto
  then show ?thesis
    by auto
qed

lemma plain_reads_sentinels: "float_reads_sentinels plain"
  unfolding float_reads_sentinels_def by code_simp

text \<open>
  Claim C3. A field whose token is one of the sentinel strings \<open>"MM"\<close>, \<open>"99.0"\<close>,
  \<open>"999.0"\<close>, \<open>"9999.0"\<close>, \<open>"99.00"\<close>, \<open>"999"\<close>, \<open>"9999"\<close> is read as absent, for every
  column: by \<open>get_val\<close> of the oceanographic parser and by \<open>get\<close> of the meteorological
  parser, whatever \<open>float\<close> would make of the token; and the fallback parser, which has no
  sentinel test of its own, passes over a row whose \<open>WTMP\<close> token is a sentinel, given what
  \<open>float\<close> returns on these seven strings.
\<close>

theorem sentinel_is_absent:
  assumes "S \<in> set sentinels" and "col_map col = Some idx" and "idx < length parts"
    and "parts ! idx = S"
  shows "get_val B col_map parts col = None
       \<and> get B col_map parts col = None
       \<and> (float_reads_sentinels B \<and> col = ''WTMP'' \<and> parts = split_ws line
            \<longrightarrow> scan_txt B col_map (line # rest) = scan_txt B col_map rest)"
proof -
  have 1: "get_val B col_map parts col = None"
    using assms by (simp add: get_val_def)
  have 2: "get B col_map parts col = None"
    using assms by (simp add: get_def)
  have 3: "scan_txt B col_map (line # rest) = scan_txt B col_map rest"
    if "float_reads_sentinels B" "col = ''WTMP''" "parts = split_ws line"
  proof (cases "py_float B S")
    case None
    then show ?thesis using assms that by (simp add: Let_def)
  next
    case (Some v)
    then have "\<not> lt_num v 50" using sentinel_float_ge_50 that(1) assms(1) by blast
    then show ?thesis using assms that Some by (simp add: Let_def)
  qed
  show ?thesis using 1 2 3 by blast
qed

theorem sentinel_is_absent_witness:
  "''999.0'' \<in> set sentinels
   \<and> get_val plain (col_map_of (split_ws ''#YY MM DD hh mm WTMP'')) (split_ws ''2024 01 15 12 30 999.0'') ''WTMP'' = None
   \<and> get plain (col_map_of (split_ws ''#YY MM DD hh mm WTMP'')) (split_ws ''2024 01 15 12 30 999.0'') ''WTMP'' = None
   \<and> scan_txt plain (col_map_of (split_ws ''#YY MM DD hh mm WTMP'')) [''2024 01 15 12 30 999.0''] = None"
proof -
  have s: "''999.0'' \<in> set sentinels"
    by (simp add: sentinels_def)
  have c: "col_map_of (split_ws ''#YY MM DD hh mm WTMP'') ''WTMP'' = Some 5"
    by code_simp
  have p: "split_ws ''2024 01 15 12 30 999.0'' = [''2024'', ''01'', ''15'', ''12'', ''30'', ''999.0'']"
    by code_simp
  have l: "5 < length (split_ws ''2024 01 15 12 30 999.0'')"
    by (simp add: p)
  have v: "split_ws ''2024 01 15 12 30 999.0'' ! 5 = ''999.0''"
    by (simp add: p)
  show ?thesis
    using sentinel_is_absent [where S = "''999.0''" and col = "''WTMP''" and idx = 5
        and col_map = "col_map_of (split_ws ''#YY MM DD hh mm WTMP'')"
        and parts = "split_ws ''2024 01 15 12 30 999.0''" and B = plain
        and line = "''2024 01 15 12 30 999.0''" and rest = "[]"]
      plain_reads_sentinels s c l v
    by simp
qed

text \<open>
  Claim C4 (as amended). A parsed value \<open>v \<ge> 99\<close> in a column other than \<open>DEPTH\<close> is absent
  for the oceanographic parser's \<open>get_val\<close>, which keeps a value below 99 (so \<open>98.9\<close> is
  kept and \<open>99.0\<close> is not). The meteorological parser's \<open>get\<close> has another threshold: it
  drops a value that is not below 999 and keeps every value below 999 whose token is not a
  sentinel string, so wind directions and the like from 99 up are readings. The fallback
  parser passes over a row whose \<open>WTMP\<close> value is not below 50.
\<close>

theorem field_thresholds:
  assumes "col_map col = Some idx" and "idx < length parts"
    and "py_float B (parts ! idx) = Some v"
  shows "(ge_num v 99 \<and> col \<noteq> ''DEPTH'' \<longrightarrow> get_val B col_map parts col = None)
       \<and> (\<not> ge_num v 99 \<and> parts ! idx \<notin> set sentinels \<longrightarrow> get_val B col_map parts col = Some v)
       \<and> (\<not> lt_num v 999 \<longrightarrow> get B col_map parts col = None)
       \<and> (lt_num v 999 \<and> parts ! idx \<notin> set sentinels \<longrightarrow> get B col_map parts col = Some v)
       \<and> (\<not> lt_num v 50 \<and> col = ''WTMP'' \<and> parts = split_ws line
            \<longrightarrow> scan_txt B col_map (line # rest) = scan_txt B col_map rest)"
proof -
  have 1: "ge_num v 99 \<and> col \<noteq> ''DEPTH'' \<longrightarrow> get_val B col_map parts col = None"
    using assms by (simp add: get_val_def Let_def)
  have 2: "\<not> ge_num v 99 \<and> parts ! idx \<notin> set sentinels \<longrightarrow> get_val B col_map parts col = Some v"
    using assms by (simp add: get_val_def Let_def)
  have 3: "\<not> lt_num v 999 \<longrightarrow> get B col_map parts col = None"
    using assms by (simp add: get_def Let_def)
  have 4: "lt_num v 999 \<and> parts ! idx \<notin> set sentinels \<longrightarrow> get B col_map parts col = Some v"
    using assms by (simp add: get_def Let_def)
  have 5: "scan_txt B col_map (line # rest) = scan_txt B col_map rest"
    if "\<not> lt_num v 50" "col = ''WTMP''" "parts = split_ws line"
    using assms that by (simp add: Let_def)
  show ?thesis
    using 1 2 3 4 5 by blast
qed

theorem field_thresholds_witness:
  "get_val plain (col_map_of [''OTMP'']) [''98.9''] ''OTMP'' = Some (Finite (989 / 10))
   \<and> get plain (col_map_of [''OTMP'']) [''98.9''] ''OTMP'' = Some (Finite (989 / 10))
   \<and> get_val plain (col_map_of [''OTMP'']) [''99.0''] ''OTMP'' = None
   \<and> get_val plain (col_map_of [''WDIR'']) [''1000''] ''WDIR'' = None
   \<and> get plain (col_map_of [''WDIR'']) [''1000''] ''WDIR'' = None
   \<and> scan_txt plain (col_map_of [''#YY'', ''WTMP'']) [''2024 1000 0 0 0''] = None"
proof -
  have c: "col_map_of [''OTMP''] ''OTMP'' = Some 0" "col_map_of [''WDIR''] ''WDIR'' = Some 0"
    "col_map_of [''#YY'', ''WTMP''] ''WTMP'' = Some 1"
    by code_simp+
  have f: "py_float plain ''98.9'' = Some (Finite (989 / 10))"
    "py_float plain ''99.0'' = Some (Finite 99)"
    "py_float plain ''1000'' = Some (Finite 1000)"
    by code_simp+
  have s: "''98.9'' \<notin> set sentinels"
    by (simp add: sentinels_def)
  have p: "split_ws ''2024 1000 0 0 0'' = [''2024'', ''1000'', ''0'', ''0'', ''0'']"
    by code_simp
  have a: "get_val plain (col_map_of [''OTMP'']) [''98.9''] ''OTMP'' = Some (Finite (989 / 10))
      \<and> get plain (col_map_of [''OTMP'']) [''98.9''] ''OTMP'' = Some (Finite (989 / 10))"
    using field_thresholds [where col_map = "col_map_of [''OTMP'']" and col = "''OTMP''" and idx = 0
        and parts = "[''98.9'']" and B = plain and v = "Finite (989 / 10)"] c f s
    by simp
  have b: "get_val plain (col_map_of [''OTMP'']) [''99.0''] ''OTMP'' = None"
    using field_thresholds [where col_map = "col_map_of [''OTMP'']" and col = "''OTMP''" and idx = 0
        and parts = "[''99.0'']" and B = plain and v = "Finite 99"] c f
    by simp
  have d: "get_val plain (col_map_of [''WDIR'']) [''1000''] ''WDIR'' = None
      \<and> get plain (col_map_of [''WDIR'']) [''1000''] ''WDIR'' = None"
    using field_thresholds [where col_map = "col_map_of [''WDIR'']" and col = "''WDIR''" and idx = 0
        and parts = "[''1000'']" and B = plain and v = "Finite 1000"] c f
    by simp
  have e: "scan_txt plain (col_map_of [''#YY'', ''WTMP'']) [''2024 1000 0 0 0''] = None"
    using field_thresholds [where col_map = "col_map_of [''#YY'', ''WTMP'']" and col = "''WTMP''"
        and idx = 1 and parts = "split_ws ''2024 1000 0 0 0''" and B = plain
        and v = "Finite 1000" and line = "''2024 1000 0 0 0''" and rest = "[]"] c f p
    by simp
  show ?thesis
    using a b d e by blast
qed

text \<open>
  The claim as stated fails on the meteorological parser: in a feed row whose wind direction
  is \<open>180\<close>, a value above 99 in a column that is not a depth, the reading is kept.
\<close>

theorem met_keeps_values_from_99_counterexample:
  "ge_num (Finite 180) 99
   \<and> parse_ndbc_met_txt plain (Some met_feed_example) =
       Some [(''wspd'', JNum (Finite 5)), (''wdir'', JNum (Finite 180)),
             (''wvht'', JNum (Finite (6 / 5))), (''dpd'', JNum (Finite 8)),
             (''pres'', JNum (Finite (1997 / 2))), (''atmp'', JNum (Finite (201 / 10))),
             (''wtmp'', JNum (Finite (43 / 2)))]"
  by code_simp

section \<open>What the feed parsers return when nothing was read\<close>

text \<open>
  The meteorological parser and the fallback parser return a mapping only when it holds a
  field: \<open>readings if readings else None\<close>, and the single entry \<open>{"temp": v}\<close>.
\<close>

lemma met_mapping_has_a_field: "parse_ndbc_met_txt B feed \<noteq> Some []"
  by (auto simp: parse_ndbc_met_txt_def Let_def split: option.splits)

lemma scan_txt_is_temp: "scan_txt B col_map rows = Some m \<Longrightarrow> \<exists>v. m = [(''temp'', JNum v)]"
  by (induction rows) (auto simp: Let_def split: option.splits if_splits)

lemma fallback_mapping_is_temp: "parse_txt_feed B feed = Some m \<Longrightarrow> \<exists>v. m = [(''temp'', JNum v)]"
  by (auto simp: parse_txt_feed_def Let_def split: option.splits if_splits dest: scan_txt_is_temp)

lemma fallback_reads_the_example_feed:
  "parse_txt_feed plain (Some met_feed_example) = Some [(''temp'', JNum (Finite (43 / 2)))]"
  by code_simp

lemma ocean_feed_all_missing_stations:
  "fetch_url ocean_without_fields (ndbc_ocean_url plain (JStr ''42001'')) = Some ocean_feed_all_missing"
  "fetch_url ocean_without_fields (ndbc_txt_url plain (JStr ''42001'')) = Some met_feed_example"
  by (simp_all add: ocean_without_fields_def ndbc_ocean_url_def ndbc_txt_url_def)

text \<open>
  Claim C7, on an \<open>.ocean\<close> feed whose only data row has a valid date and \<open>MM\<close> in every
  column. No field is extracted, but \<open>result["timestamp"]\<close> is set before the test
  \<open>result if result else None\<close>, so the parser returns the mapping that holds the timestamp
  alone, a mapping without any field, where the claim says absent. The caller takes the
  mapping for readings: \<open>update_station\<close> returns it and never asks the \<open>.txt\<close> feed, which
  here has a water temperature of 21.5 that the fallback parser reads.
\<close>

theorem ocean_feed_without_fields_is_not_absent:
  "parse_ocean_feed plain (Some ocean_feed_all_missing)
     = Some (Some [(''timestamp'', JStr ''2024-01-15T12:30:00+00:00'')])
   \<and> parse_txt_feed plain (Some met_feed_example) = Some [(''temp'', JNum (Finite (43 / 2)))]
   \<and> update_station plain ocean_without_fields station_example
       = Some (Some [(''timestamp'', JStr ''2024-01-15T12:30:00+00:00'')])"
proof -
  have p: "parse_ocean_feed plain (Some ocean_feed_all_missing)
     = Some (Some [(''timestamp'', JStr ''2024-01-15T12:30:00+00:00'')])"
    by code_simp
  have i: "map_of station_example ''id'' = Some (JStr ''42001'')"
    by (simp add: station_example_def)
  have u: "update_station plain ocean_without_fields station_example
       = Some (Some [(''timestamp'', JStr ''2024-01-15T12:30:00+00:00'')])"
    by (simp add: update_station_def i ocean_feed_all_missing_stations p)
  show ?thesis
    using p fallback_reads_the_example_feed u by (intro conjI)
qed

section \<open>The fallback parser and a water-temperature column at index 0\<close>

lemma fold_col_other:
  "k \<notin> set hs \<Longrightarrow> fold (\<lambda>(i, h) m. m(h \<mapsto> i)) (enumerate n hs) m k = m k"
  by (induction hs arbitrary: n m) auto

lemma col_map_of_first: "h \<notin> set hs \<Longrightarrow> col_map_of (h # hs) h = Some 0"
  by (simp add: col_map_of_def fold_col_other)

lemma scan_txt_wtmp_0: "col_map ''WTMP'' = Some 0 \<Longrightarrow> scan_txt B col_map rows = None"
  by (induction rows) (auto simp: Let_def)

text \<open>
  Claim C10. When the header row of a \<open>.txt\<close> feed has its \<open>WTMP\<close> column at index 0 (the
  index the parser resolves the name to; a repeated name resolves to its last place), the
  fallback parser returns absent, whatever the data rows hold: the test
  \<open>if wtmp_idx and ...\<close> takes the index 0 for a missing column.
\<close>

theorem wtmp_at_index_0_is_absent:
  assumes "col_map_of (split_ws (split_lines t ! 0)) ''WTMP'' = Some 0"
  shows "parse_txt_feed B (Some t) = None"
  using assms by (simp add: parse_txt_feed_def Let_def scan_txt_wtmp_0)

theorem wtmp_at_index_0_is_absent_witness:
  "col_map_of (split_ws (split_lines wtmp_first_feed ! 0)) ''WTMP'' = Some 0
   \<and> split_ws (split_lines wtmp_first_feed ! 2) = [''21.5'', ''20.1'', ''180'', ''5.0'', ''998.5'']
   \<and> py_float plain ''21.5'' = Some (Finite (43 / 2)) \<and> lt_num (Finite (43 / 2)) 50
   \<and> parse_txt_feed plain (Some wtmp_first_feed) = None"
proof -
  have h: "col_map_of (split_ws (split_lines wtmp_first_feed ! 0)) ''WTMP'' = Some 0"
    by code_simp
  have r: "split_ws (split_lines wtmp_first_feed ! 2) = [''21.5'', ''20.1'', ''180'', ''5.0'', ''998.5'']"
    by code_simp
  have f: "py_float plain ''21.5'' = Some (Finite (43 / 2))"
    by code_simp
  show ?thesis
    using wtmp_at_index_0_is_absent [OF h, of plain] h r f
    by simp
qed

section \<open>The merge of a reading into a station's current mapping\<close>

lemma merge_readings_Cons:
  "merge_readings cur ((k, v) # rs) = merge_readings (AList.update (stored_key k) v cur) rs"
  by (simp add: merge_readings_def stored_key_def)

lemma merge_readings_other:
  "k \<notin> stored_key ` fst ` set rs \<Longrightarrow> map_of (merge_readings cur rs) k = map_of cur k"
proof (induction rs arbitrary: cur)
  case Nil
  then show ?case by (simp add: merge_readings_def)
next
  case (Cons p rs)
  obtain k' v' where p: "p = (k', v')" by (cases p)
  from Cons.prems p have "k \<noteq> stored_key k'" and "k \<notin> stored_key ` fst ` set rs"
    by auto
  then show ?case
    using Cons.IH [of "AList.update (stored_key k') v' cur"] p
    by (simp add: merge_readings_Cons update_conv')
qed

lemma merge_readings_written:
  assumes "(k, v) \<in> set rs" and "distinct (map fst rs)"
    and "\<forall>k' \<in> fst ` set rs. stored_key k' = stored_key k \<longrightarrow> k' = k"
  shows "map_of (merge_readings cur rs) (stored_key k) = Some v"
  using assms
proof (induction rs arbitrary: cur)
  case Nil
  then show ?case by simp
next
  case (Cons p rs)
  obtain k' v' where p: "p = (k', v')" by (cases p)
  show ?case
  proof (cases "(k, v) = (k', v')")
    case True
    have "k \<notin> fst ` set rs"
      using Cons.prems(2) p True by auto
    have "stored_key k \<notin> stored_key ` fst ` set rs"
    proof
      assume "stored_key k \<in> stored_key ` fst ` set rs"
      then obtain k'' where a: "k'' \<in> fst ` set rs" and b: "stored_key k = stored_key k''"
        by (rule imageE)
      from a have "k'' \<in> fst ` set (p # rs)"
        by simp
      with b Cons.prems(3) have "k'' = k"
        by metis
      with a \<open>k \<notin> fst ` set rs\<close> show False
        by simp
    qed
    then show ?thesis
      using p True by (simp add: merge_readings_Cons merge_readings_other update_conv')
  next
    case False
    then have "(k, v) \<in> set rs"
      using Cons.prems(1) p by auto
    moreover have "distinct (map fst rs)"
      using Cons.prems(2) by simp
    moreover have "\<forall>k' \<in> fst ` set rs. stored_key k' = stored_key k \<longrightarrow> k' = k"
      using Cons.prems(3) by simp
    ultimately show ?thesis
      using Cons.IH p by (simp add: merge_readings_Cons)
  qed
qed

text \<open>
  Claim C2 (as amended). For a station with a current mapping and a non-empty reading (a
  dict, so its keys are distinct), the station's current mapping becomes the merge, in
  which: every entry of the reading under a key other than \<open>timestamp\<close> and \<open>last_obs\<close> is
  stored under its key, added or overwritten; the entry under \<open>timestamp\<close> is stored under
  \<open>last_obs\<close> and no key \<open>timestamp\<close> is written; every key absent from the reading keeps
  its value, except \<open>last_obs\<close> when the reading has a timestamp. Merging
  \<open>{do: 5, temp: 20}\<close> with \<open>{temp: 21, sal: 30}\<close> gives \<open>{do: 5, temp: 21, sal: 30}\<close>.
\<close>

theorem merge_law:
  assumes "distinct (map fst readings)" and "readings \<noteq> []"
    and "map_of station ''current'' = Some (JObj current)"
  shows "merge_station station (Some readings)
           = Some (AList.update ''current'' (JObj (merge_readings current readings)) station)
       \<and> (\<forall>k v. (k, v) \<in> set readings \<and> k \<noteq> ''timestamp'' \<and> k \<noteq> ''last_obs''
              \<longrightarrow> map_of (merge_readings current readings) k = Some v)
       \<and> (\<forall>v. (''timestamp'', v) \<in> set readings \<and> ''last_obs'' \<notin> fst ` set readings
              \<longrightarrow> map_of (merge_readings current readings) ''last_obs'' = Some v)
       \<and> map_of (merge_readings current readings) ''timestamp'' = map_of current ''timestamp''
       \<and> (\<forall>k. k \<notin> fst ` set readings \<and> (k = ''last_obs'' \<longrightarrow> ''timestamp'' \<notin> fst ` set readings)
              \<longrightarrow> map_of (merge_readings current readings) k = map_of current k)
       \<and> merge_readings [(''do'', JNum (Finite 5)), (''temp'', JNum (Finite 20))]
                         [(''temp'', JNum (Finite 21)), (''sal'', JNum (Finite 30))]
           = [(''do'', JNum (Finite 5)), (''temp'', JNum (Finite 21)), (''sal'', JNum (Finite 30))]"
proof -
  have 1: "merge_station station (Some readings)
           = Some (AList.update ''current'' (JObj (merge_readings current readings)) station)"
    using assms(2,3) by (simp add: merge_station_def)
  have 2: "\<forall>k v. (k, v) \<in> set readings \<and> k \<noteq> ''timestamp'' \<and> k \<noteq> ''last_obs''
              \<longrightarrow> map_of (merge_readings current readings) k = Some v"
  proof (intro allI impI, elim conjE)
    fix k v
    assume that: "(k, v) \<in> set readings" "k \<noteq> ''timestamp''" "k \<noteq> ''last_obs''"
    have "\<forall>k' \<in> fst ` set readings. stored_key k' = stored_key k \<longrightarrow> k' = k"
      using that(2,3) by (auto simp: stored_key_def split: if_splits)
    then have "map_of (merge_readings current readings) (stored_key k) = Some v"
      by (rule merge_readings_written [OF that(1) assms(1)])
    then show "map_of (merge_readings current readings) k = Some v"
      using that(2) by (simp add: stored_key_def)
  qed
  have 3: "\<forall>v. (''timestamp'', v) \<in> set readings \<and> ''last_obs'' \<notin> fst ` set readings
              \<longrightarrow> map_of (merge_readings current readings) ''last_obs'' = Some v"
  proof (intro allI impI, elim conjE)
    fix v
    assume that: "(''timestamp'', v) \<in> set readings" "''last_obs'' \<notin> fst ` set readings"
    have "\<forall>k' \<in> fst ` set readings. stored_key k' = stored_key ''timestamp'' \<longrightarrow> k' = ''timestamp''"
    proof (intro ballI impI)
      fix k'
      assume a: "k' \<in> fst ` set readings" and b: "stored_key k' = stored_key ''timestamp''"
      from a that(2) have "k' \<noteq> ''last_obs''"
        by metis
      with b show "k' = ''timestamp''"
        by (simp add: stored_key_def split: if_splits)
    qed
    then have "map_of (merge_readings current readings) (stored_key ''timestamp'') = Some v"
      by (rule merge_readings_written [OF that(1) assms(1)])
    then show "map_of (merge_readings current readings) ''last_obs'' = Some v"
      by (simp add: stored_key_def)
  qed
  have 4: "map_of (merge_readings current readings) ''timestamp'' = map_of current ''timestamp''"
  proof -
    have "stored_key k' \<noteq> ''timestamp''" for k'
      by (simp add: stored_key_def)
    then have "''timestamp'' \<notin> stored_key ` fst ` set readings"
      by (metis imageE)
    then show ?thesis
      by (rule merge_readings_other)
  qed
  have 5: "\<forall>k. k \<notin> fst ` set readings \<and> (k = ''last_obs'' \<longrightarrow> ''timestamp'' \<notin> fst ` set readings)
              \<longrightarrow> map_of (merge_readings current readings) k = map_of current k"
  proof (intro allI impI, elim conjE)
    fix k
    assume that: "k \<notin> fst ` set readings" "k = ''last_obs'' \<longrightarrow> ''timestamp'' \<notin> fst ` set readings"
    have "k \<notin> stored_key ` fst ` set readings"
    proof
      assume "k \<in> stored_key ` fst ` set readings"
      then obtain k' where a: "k' \<in> fst ` set readings" and b: "k = stored_key k'"
        by (rule imageE)
      show False
      proof (cases "k' = ''timestamp''")
        case True
        then show ?thesis using a b that(2) by (simp add: stored_key_def)
      next
        case False
        then show ?thesis using a b that(1) by (simp add: stored_key_def)
      qed
    qed
    then show "map_of (merge_readings current readings) k = map_of current k"
      by (rule merge_readings_other)
  qed
  have 6: "merge_readings [(''do'', JNum (Finite 5)), (''temp'', JNum (Finite 20))]
                         [(''temp'', JNum (Finite 21)), (''sal'', JNum (Finite 30))]
           = [(''do'', JNum (Finite 5)), (''temp'', JNum (Finite 21)), (''sal'', JNum (Finite 30))]"
    by (simp add: merge_readings_def)
  show ?thesis
    using 1 2 3 4 5 6 by (intro conjI)
qed

theorem merge_law_witness:
  "distinct (map fst reading_example) \<and> reading_example \<noteq> []
   \<and> map_of station_example ''current''
        = Some (JObj [(''do'', JNum (Finite 5)), (''last_obs'', JStr ''2024-01-15T06:30:00+00:00'')])
   \<and> merge_station station_example (Some reading_example)
        = Some [(''id'', JStr ''42001''),
                (''current'', JObj [(''do'', JNum (Finite 6)),
                                    (''last_obs'', JStr ''2024-01-15T12:30:00+00:00'')])]"
proof -
  have d: "distinct (map fst reading_example)"
    by (simp add: reading_example_def)
  have n: "reading_example \<noteq> []"
    by (simp add: reading_example_def)
  have c: "map_of station_example ''current''
        = Some (JObj [(''do'', JNum (Finite 5)), (''last_obs'', JStr ''2024-01-15T06:30:00+00:00'')])"
    by (simp add: station_example_def)
  have m: "AList.update ''current''
             (JObj (merge_readings [(''do'', JNum (Finite 5)),
                                    (''last_obs'', JStr ''2024-01-15T06:30:00+00:00'')] reading_example))
             station_example
        = [(''id'', JStr ''42001''),
           (''current'', JObj [(''do'', JNum (Finite 6)),
                               (''last_obs'', JStr ''2024-01-15T12:30:00+00:00'')])]"
    by (simp add: station_example_def reading_example_def merge_readings_def)
  show ?thesis
    using merge_law [OF d n c] d n c m
    by simp
qed

text \<open>
  The claim as stated fails when the reading has a timestamp, as the readings of the
  oceanographic parser do: the key \<open>timestamp\<close> of the reading is not added to the current
  mapping, and the key \<open>last_obs\<close>, which the reading does not have, changes.
\<close>

theorem merge_renames_timestamp_counterexample:
  "map_of reading_example ''last_obs'' = None
   \<and> map_of reading_example ''timestamp'' = Some (JStr ''2024-01-15T12:30:00+00:00'')
   \<and> merge_readings [(''do'', JNum (Finite 5)), (''last_obs'', JStr ''2024-01-15T06:30:00+00:00'')]
         reading_example
       = [(''do'', JNum (Finite 6)), (''last_obs'', JStr ''2024-01-15T12:30:00+00:00'')]"
  by (simp add: reading_example_def merge_readings_def)

section \<open>Glider and drifter tracks\<close>

lemma row_point_trajectory: "row_point (trajectory_row i) = Some (Some (trajectory_point i))"
  by (simp add: row_point_def trajectory_row_def trajectory_point_def)

lemma strided_all_points:
  assumes "\<forall>i \<in> set idx. i < length rs \<and> row_point (rs ! i) = Some (Some (f i))"
  shows "strided (JArr rs) idx = Some (map (\<lambda>i. (i, f i)) idx)"
  using assms by (induction idx) auto

lemma strided_trajectory:
  assumes "\<forall>i \<in> set idx. i < n"
  shows "strided (JArr (map trajectory_row [0 ..< n])) idx = Some (map (\<lambda>i. (i, trajectory_point i)) idx)"
  by (rule strided_all_points) (use assms in \<open>auto simp: row_point_trajectory\<close>)

lemma round4_995: "round4 (20 + 995 / 1000) = 20995 / 1000"
  by (simp add: round4_def Let_def)

lemma round4_999: "round4 (20 + 999 / 1000) = 20999 / 1000"
  by (simp add: round4_def Let_def)

lemma last_differs: "pt_ne (trajectory_point 995) (trajectory_point 999)"
  using round4_995 round4_999 by (simp add: trajectory_point_def)

lemma glider_track_indexed_1000:
  "glider_track_indexed (JArr (map trajectory_row [0 ..< 1000]))
     = Some (map (\<lambda>j. (5 * j, trajectory_point (5 * j))) [0 ..< 200] @ [(999, trajectory_point 999)])"
proof -
  let ?rs = "map trajectory_row [0 ..< 1000]"
  let ?track = "map (\<lambda>i. (i, trajectory_point i)) (map (\<lambda>j. j * 5) [0 ..< 200])"
  have s: "strided (JArr ?rs) (map (\<lambda>j. j * 5) [0 ..< 200]) = Some ?track"
    by (rule strided_trajectory) auto
  have l: "py_last (JArr ?rs) = Some (trajectory_row 999)"
    by (simp add: last_map)
  have lt: "snd (last ?track) = trajectory_point 995"
    by (simp add: last_map)
  have e: "?track = map (\<lambda>j. (5 * j, trajectory_point (5 * j))) [0 ..< 200]"
    by (simp add: comp_def mult.commute)
  show ?thesis
    unfolding glider_track_indexed_def
    using s l lt last_differs e
    by (simp add: row_point_trajectory Let_def del: upt_Suc map_map)
qed

lemma last_n_bound: "length (last_n n xs) \<le> n"
  by (simp add: last_n_def)

lemma last_n_last: "xs \<noteq> [] \<Longrightarrow> 0 < n \<Longrightarrow> last (last_n n xs) = last xs"
  by (simp add: last_n_def last_drop)

text \<open>
  Claim C1, on a trajectory of 1000 rows with 1000 different positions. The stride is
  \<open>1000 // 200 = 5\<close>, the rows 0, 5, ..., 995 give 200 points, and then the last row 999 is
  appended because its point differs from the point of row 995: the track has 201 points,
  one more than the 200 of the claim (the indices are increasing and the last point is the
  one of the last row, as the claim says).
\<close>

theorem glider_track_of_1000_rows_has_201_points:
  "fetch_glider_track (Some trajectory_1000)
     = map (\<lambda>j. trajectory_point (5 * j)) [0 ..< 200] @ [trajectory_point 999]
   \<and> length (fetch_glider_track (Some trajectory_1000)) = 201"
  by (simp add: fetch_glider_track_def trajectory_1000_def glider_track_indexed_1000 comp_def
        del: upt_Suc)

section \<open>The weather-buoy extractor\<close>

lemma contains_single: "contains [c] s = (c \<in> set s)"
  by (induction s) auto

lemma split_on_absent: "c \<notin> set s \<Longrightarrow> split_on c s = [s]"
  by (induction s) auto

lemma split_on_not_Nil: "split_on c s \<noteq> []"
  by (induction s) (auto split: list.splits)

lemma station_id_of_str: "station_id_of (JStr s) = Some (JStr (last (split_on (CHR ''_'') s)))"
  by (simp add: station_id_of_def contains_single split_on_absent)

lemma round4_down:
  assumes "of_int f \<le> x * 10000" and "x * 10000 < of_int f + 1 / 2"
  shows "round4 x = of_int f / 10000"
proof -
  have fl: "\<lfloor>x * 10000\<rfloor> = f"
    using assms by (intro floor_unique) auto
  then show ?thesis
    using assms by (simp add: round4_def Let_def)
qed

lemma round4_lat:
  assumes "\<bar>lat - 257654321 / 10000000\<bar> \<le> 1 / 1000000000"
  shows "round4 lat = 257654 / 10000"
proof -
  have "of_int 257654 \<le> lat * 10000" "lat * 10000 < of_int 257654 + 1 / 2"
    using assms by linarith+
  from round4_down [OF this] show ?thesis by simp
qed

lemma round4_lon:
  assumes "\<bar>lon - (- 901234567 / 10000000)\<bar> \<le> 1 / 1000000000"
  shows "round4 lon = - 901235 / 10000"
proof -
  have "of_int (- 901235) \<le> lon * 10000" "lon * 10000 < of_int (- 901235) + 1 / 2"
    using assms by linarith+
  from round4_down [OF this] show ?thesis by simp
qed

lemma ndbc_buoy_point:
  "ndbc_buoy (point_feature sid lon lat title)
     = Some (Some (JStr (last (split_on (CHR ''_'') sid)),
                   [(''id'', JStr (last (split_on (CHR ''_'') sid))),
                    (''lat'', JNum (Finite (round4 lat))), (''lon'', JNum (Finite (round4 lon))),
                    (''title'', JStr (take 80 title)), (''vars'', JArr [])]))"
  by (simp add: ndbc_buoy_def point_feature_def is_point_def station_id_of_str)


lemma update_ndbc_met_single:
  assumes "ndbc_buoy item = Some (Some (station_id, buoy))"
  shows "update_ndbc_met B N now (search_result [item])
     = Some (document now ''buoys''
         [JObj (case parse_ndbc_met_txt B (fetch_url N (ndbc_txt_url B station_id)) of
                  None \<Rightarrow> buoy
                | Some rd \<Rightarrow> if rd = [] then buoy else AList.update ''current'' (JObj rd) buoy)])"
  using assms
  by (simp add: update_ndbc_met_def search_result_def fetch_aquaview_items_def
        split: option.splits)

text \<open>
  Claim C6. A discovery result with one feature of geometry type \<open>Point\<close>, coordinates
  \<open>[-90.1234567, 25.7654321]\<close> (here any two numbers within \<open>10\<^sup>-\<^sup>9\<close> of them, which
  covers the binary floats that the decimals are read as) and title \<open>Buoy 42001\<close> gives a
  document with one buoy record, whose \<open>lat\<close> is 25.7654 and \<open>lon\<close> is -90.1235, whose
  \<open>id\<close> is the last segment of the feature id split on \<open>_\<close>, and which holds the live
  reading of that station when the feed has one.
\<close>

theorem buoy_scenario:
  assumes "\<bar>lon - (- 901234567 / 10000000)\<bar> \<le> 1 / 1000000000"
    and "\<bar>lat - 257654321 / 10000000\<bar> \<le> 1 / 1000000000"
  shows "update_ndbc_met B N now (search_result [point_feature sid lon lat ''Buoy 42001''])
     = Some (document now ''buoys''
         [JObj (let station_id = JStr (last (split_on (CHR ''_'') sid));
                    buoy = [(''id'', station_id),
                            (''lat'', JNum (Finite (257654 / 10000))),
                            (''lon'', JNum (Finite (- 901235 / 10000))),
                            (''title'', JStr ''Buoy 42001''), (''vars'', JArr [])]
                in case parse_ndbc_met_txt B (fetch_url N (ndbc_txt_url B station_id)) of
                     None \<Rightarrow> buoy
                   | Some rd \<Rightarrow> if rd = [] then buoy else AList.update ''current'' (JObj rd) buoy)])"
proof -
  have lo: "round4 lon = - 901235 / 10000"
    by (rule round4_lon [OF assms(1)])
  have la: "round4 lat = 257654 / 10000"
    by (rule round4_lat [OF assms(2)])
  have b: "ndbc_buoy (point_feature sid lon lat ''Buoy 42001'')
     = Some (Some (JStr (last (split_on (CHR ''_'') sid)),
                   [(''id'', JStr (last (split_on (CHR ''_'') sid))),
                    (''lat'', JNum (Finite (257654 / 10000))),
                    (''lon'', JNum (Finite (- 901235 / 10000))),
                    (''title'', JStr ''Buoy 42001''), (''vars'', JArr [])]))"
    by (simp only: ndbc_buoy_point lo la) simp
  show ?thesis
    unfolding Let_def by (rule update_ndbc_met_single [OF b])
qed

lemma met_feed_example_readings:
  "parse_ndbc_met_txt plain (Some met_feed_example) = Some met_readings_example"
  by code_simp

theorem buoy_scenario_witness:
  "\<bar>(- 901234567 / 10000000 :: rat) - (- 901234567 / 10000000)\<bar> \<le> 1 / 1000000000
   \<and> \<bar>(257654321 / 10000000 :: rat) - 257654321 / 10000000\<bar> \<le> 1 / 1000000000
   \<and> update_ndbc_met plain one_silent_station ''2024-01-15T12:00:00Z''
         (search_result [point_feature ''NDBC_42001'' (- 901234567 / 10000000)
                           (257654321 / 10000000) ''Buoy 42001''])
       = Some (document ''2024-01-15T12:00:00Z'' ''buoys''
           [JObj [(''id'', JStr ''42001''),
                  (''lat'', JNum (Finite (257654 / 10000))),
                  (''lon'', JNum (Finite (- 901235 / 10000))),
                  (''title'', JStr ''Buoy 42001''), (''vars'', JArr []),
                  (''current'', JObj met_readings_example)]])"
proof -
  have a: "\<bar>(- 901234567 / 10000000 :: rat) - (- 901234567 / 10000000)\<bar> \<le> 1 / 1000000000"
    by simp
  have b: "\<bar>(257654321 / 10000000 :: rat) - 257654321 / 10000000\<bar> \<le> 1 / 1000000000"
    by simp
  have s: "last (split_on (CHR ''_'') ''NDBC_42001'') = ''42001''"
    by code_simp
  have f: "fetch_url one_silent_station (ndbc_txt_url plain (JStr ''42001'')) = Some met_feed_example"
    by (simp add: one_silent_station_def ndbc_txt_url_def plain_def plain_str_def)
  have n: "met_readings_example \<noteq> []"
    by (simp add: met_readings_example_def)
  show ?thesis
    using buoy_scenario [OF a b, of plain one_silent_station "''2024-01-15T12:00:00Z''" "''NDBC_42001''"]
      a b n
    by (simp only: Let_def s f met_feed_example_readings option.case if_False) simp
qed

section \<open>The cap on live readings\<close>

lemma round4_51_2: "round4 (51 / 2) = 51 / 2"
  by (simp add: round4_def Let_def)

lemma round4_m90: "round4 (- 90) = - 90"
  by (simp add: round4_def Let_def)

lemma ndbc_buoy_feature:
  assumes "CHR ''_'' \<notin> set name" and "length name \<le> 80"
  shows "ndbc_buoy (buoy_feature name) = Some (Some (JStr name, buoy_record name))"
  using assms
  by (simp add: buoy_feature_def ndbc_buoy_point split_on_absent round4_51_2 round4_m90
        buoy_record_def)

lemma digit_char: "d < 10 \<Longrightarrow> ''0123456789'' ! d \<in> set ''0123456789''"
  by (rule nth_mem) simp

lemma station_name_plain: "CHR ''_'' \<notin> set (station_name i) \<and> length (station_name i) \<le> 80"
proof -
  have "CHR ''_'' \<notin> set ''0123456789''" by simp
  then have "CHR ''_'' \<noteq> ''0123456789'' ! d" if "d < 10" for d
    using digit_char [OF that] by metis
  then show ?thesis
    by (simp add: station_name_def)
qed

lemma station_name_live:
  "fetch_url one_silent_station (ndbc_txt_url plain (JStr (station_name i))) = Some met_feed_example"
  by (simp add: one_silent_station_def ndbc_txt_url_def plain_def plain_str_def station_name_def)

lemma silent_station:
  "fetch_url one_silent_station (ndbc_txt_url plain (JStr ''41000'')) = None"
  by (simp add: one_silent_station_def)

lemma ndbc_loop_live:
  assumes "\<forall>i \<in> set js. ndbc_buoy (f i) = Some (Some (sid i, buoy i))
             \<and> parse_ndbc_met_txt B (fetch_url N (ndbc_txt_url B (sid i))) = Some rd"
    and "rd \<noteq> []" and "fetched + length js \<le> 200"
  shows "ndbc_loop B N (map f js) fetched
           = Some (map (\<lambda>i. JObj (AList.update ''current'' (JObj rd) (buoy i))) js,
                   fetched + length js)"
  using assms
proof (induction js arbitrary: fetched)
  case Nil
  then show ?case by simp
next
  case (Cons j js)
  have "fetched < 200" using Cons.prems(3) by simp
  moreover have "ndbc_loop B N (map f js) (fetched + 1)
           = Some (map (\<lambda>i. JObj (AList.update ''current'' (JObj rd) (buoy i))) js,
                   fetched + 1 + length js)"
    using Cons.IH [of "fetched + 1"] Cons.prems by simp
  ultimately show ?case
    using Cons.prems(1,2) by simp
qed

lemma parse_ndbc_met_txt_None: "parse_ndbc_met_txt B None = None"
  by (simp add: parse_ndbc_met_txt_def)

lemma coops_beyond_100:
  assumes "100 \<le> i" and "i < length stations"
  shows "(map (coops_live B N) (take 100 stations) @ drop 100 stations) ! i = stations ! i"
  using assms by (simp add: nth_append min_def)

text \<open>
  Claim C8, on a discovery result of 201 buoys of which the first, station 41000, has no
  feed and the others have one. The test \<open>if fetched < 200\<close> counts the readings obtained,
  not the requests made, so a request is made for each of the 201 buoys and the 201st, at
  index 200, gets a live reading: it is beyond the first 200 discovered records that the
  claim, and the comment \<open>Rate-limit: fetch top 200 buoys\<close>, name. (The tide stations are
  cut by \<open>stations[:100]\<close>, and a station from index 100 on is left as it was.)
\<close>

theorem the_201st_buoy_gets_a_live_reading:
  "update_ndbc_met plain one_silent_station now
       (search_result (buoy_feature ''41000'' # map (\<lambda>i. buoy_feature (station_name i)) [1 ..< 201]))
     = Some (document now ''buoys''
         (JObj (buoy_record ''41000'')
          # map (\<lambda>i. JObj (AList.update ''current'' (JObj met_readings_example)
                                (buoy_record (station_name i)))) [1 ..< 201]))
   \<and> (JObj (buoy_record ''41000'')
          # map (\<lambda>i. JObj (AList.update ''current'' (JObj met_readings_example)
                                (buoy_record (station_name i)))) [1 ..< 201]) ! 200
       = JObj (buoy_record ''42200'' @ [(''current'', JObj met_readings_example)])"
proof -
  let ?live = "map (\<lambda>i. buoy_feature (station_name i)) [1 ..< 201]"
  have first: "ndbc_buoy (buoy_feature ''41000'') = Some (Some (JStr ''41000'', buoy_record ''41000''))"
    by (rule ndbc_buoy_feature) simp_all
  have rest: "ndbc_loop plain one_silent_station ?live 0
      = Some (map (\<lambda>i. JObj (AList.update ''current'' (JObj met_readings_example)
                                (buoy_record (station_name i)))) [1 ..< 201], 0 + length [1 ..< 201])"
    by (rule ndbc_loop_live [where sid = "\<lambda>i. JStr (station_name i)"])
       (simp_all add: ndbc_buoy_feature station_name_plain station_name_live
          met_feed_example_readings met_readings_example_def del: upt_Suc)
  have loop: "ndbc_loop plain one_silent_station (buoy_feature ''41000'' # ?live) 0
      = Some (JObj (buoy_record ''41000'')
          # map (\<lambda>i. JObj (AList.update ''current'' (JObj met_readings_example)
                                (buoy_record (station_name i)))) [1 ..< 201], 200)"
    using first rest silent_station by (simp add: parse_ndbc_met_txt_None del: upt_Suc)
  have doc: "update_ndbc_met plain one_silent_station now
       (search_result (buoy_feature ''41000'' # ?live))
     = Some (document now ''buoys''
         (JObj (buoy_record ''41000'')
          # map (\<lambda>i. JObj (AList.update ''current'' (JObj met_readings_example)
                                (buoy_record (station_name i)))) [1 ..< 201]))"
    using loop
    by (simp add: update_ndbc_met_def search_result_def fetch_aquaview_items_def del: upt_Suc)
  have nth: "(JObj (buoy_record ''41000'')
          # map (\<lambda>i. JObj (AList.update ''current'' (JObj met_readings_example)
                                (buoy_record (station_name i)))) [1 ..< 201]) ! 200
       = JObj (buoy_record ''42200'' @ [(''current'', JObj met_readings_example)])"
    by (simp add: station_name_def buoy_record_def del: upt_Suc)
  show ?thesis
    using doc nth by (rule conjI)
qed

section \<open>The water level of a tide station\<close>

lemma coops_current_without_value:
  "coops_current B (Some (JObj [(''data'', JArr [JObj [(''t'', JStr ''2024-01-15 12:30'')]])]))
     = Some [(''wl'', JNum (Finite 0)), (''time'', JStr ''2024-01-15 12:30'')]"
  by (simp add: coops_current_def py_float_of_def)

lemma coops_station_point:
  "coops_station (point_feature sid lon lat title)
     = Some (Some [(''id'', JStr (last (split_on (CHR ''_'') sid))),
                   (''lat'', JNum (Finite (round4 lat))), (''lon'', JNum (Finite (round4 lon))),
                   (''title'', JStr (take 80 title)), (''vars'', JArr []), (''src'', JStr [])])"
  by (simp add: coops_station_def point_feature_def is_point_def station_id_of_str)

text \<open>
  Claim C9, on a tide station whose latest reading from the tide API has a time and no
  value \<open>v\<close>. \<open>float(latest.get("v", 0))\<close> takes the default 0, and the station's current
  mapping is written with the water level \<open>wl = 0.0\<close>: a value that the source did not
  supply is recorded as a zero reading. (The feed parsers leave an absent field out.)
\<close>

theorem missing_level_is_recorded_as_zero:
  "update_coops plain level_without_value now
       (search_result [point_feature ''COOPS_8761724'' (- 899573 / 10000) (292633 / 10000) ''Grand Isle''])
     = Some (document now ''stations''
         [JObj [(''id'', JStr ''8761724''),
                (''lat'', JNum (Finite (292633 / 10000))), (''lon'', JNum (Finite (- 899573 / 10000))),
                (''title'', JStr ''Grand Isle''), (''vars'', JArr []), (''src'', JStr []),
                (''current'', JObj [(''wl'', JNum (Finite 0)), (''time'', JStr ''2024-01-15 12:30'')])]])"
proof -
  have s: "last (split_on (CHR ''_'') ''COOPS_8761724'') = ''8761724''"
    by code_simp
  have r: "round4 (292633 / 10000) = 292633 / 10000" "round4 (- 899573 / 10000) = - 899573 / 10000"
    by (simp_all add: round4_def Let_def)
  have st: "coops_station (point_feature ''COOPS_8761724'' (- 899573 / 10000) (292633 / 10000) ''Grand Isle'')
     = Some (Some [(''id'', JStr ''8761724''),
                   (''lat'', JNum (Finite (292633 / 10000))), (''lon'', JNum (Finite (- 899573 / 10000))),
                   (''title'', JStr ''Grand Isle''), (''vars'', JArr []), (''src'', JStr [])])"
    by (simp only: coops_station_point s r) simp
  have f: "fetch_json level_without_value url
     = Some (JObj [(''data'', JArr [JObj [(''t'', JStr ''2024-01-15 12:30'')]])])" for url
    by (simp add: level_without_value_def)
  show ?thesis
    using st
    by (simp add: update_coops_def search_result_def fetch_aquaview_items_def coops_live_def f
          coops_current_without_value)
qed

section \<open>The count of an output document\<close>

lemma count_matches_document:
  "key \<noteq> ''updated'' \<Longrightarrow> key \<noteq> ''count'' \<Longrightarrow> count_matches key (document now key records)"
  by (simp add: count_matches_def document_def)

text \<open>
  Claim C5. Every document that an extractor writes (sensors, weather buoys, tide
  stations, gliders, drifters, incidents, hurricane probes) has a \<open>count\<close> equal to the
  length of its record list: the record list is complete when the document is built, also
  after the sort of the incidents and after the live readings of buoys and tide stations.
\<close>

theorem document_count_is_length:
  "(update_ioos_sensors now search = Some doc \<longrightarrow> count_matches ''sensors'' doc)
   \<and> (update_ndbc_met B N now search = Some doc \<longrightarrow> count_matches ''buoys'' doc)
   \<and> (update_coops B N now search = Some doc \<longrightarrow> count_matches ''stations'' doc)
   \<and> (update_gliders B N now search = Some doc \<longrightarrow> count_matches ''gliders'' doc)
   \<and> (update_drifters N now search = Some doc \<longrightarrow> count_matches ''drifters'' doc)
   \<and> (update_incidents B now search = Some doc \<longrightarrow> count_matches ''incidents'' doc)
   \<and> (update_pmel now search = Some doc \<longrightarrow> count_matches ''probes'' doc)"
proof -
  have 1: "count_matches ''sensors'' doc" if "update_ioos_sensors now search = Some doc"
    using that
    by (auto simp: update_ioos_sensors_def count_matches_document Option.bind_eq_Some_conv)
  have 2: "count_matches ''buoys'' doc" if "update_ndbc_met B N now search = Some doc"
    using that
    by (auto simp: update_ndbc_met_def count_matches_document Option.bind_eq_Some_conv)
  have 3: "count_matches ''stations'' doc" if "update_coops B N now search = Some doc"
    using that
    by (auto simp: update_coops_def Let_def count_matches_document Option.bind_eq_Some_conv)
  have 4: "count_matches ''gliders'' doc" if "update_gliders B N now search = Some doc"
    using that
    by (auto simp: update_gliders_def count_matches_document Option.bind_eq_Some_conv)
  have 5: "count_matches ''drifters'' doc" if "update_drifters N now search = Some doc"
    using that
    by (auto simp: update_drifters_def count_matches_document Option.bind_eq_Some_conv)
  have 6: "count_matches ''incidents'' doc" if "update_incidents B now search = Some doc"
    using that
    by (auto simp: update_incidents_def count_matches_document Option.bind_eq_Some_conv)
  have 7: "count_matches ''probes'' doc" if "update_pmel now search = Some doc"
    using that
    by (auto simp: update_pmel_def count_matches_document Option.bind_eq_Some_conv)
  show ?thesis
    using 1 2 3 4 5 6 7 by (intro conjI impI)
qed

lemma example_sensors: "update_ioos_sensors example_now example_search
     = Some (document example_now ''sensors''
         [JObj [(''id'', JStr ''42001''), (''title'', JStr ''42001''),
                (''lat'', JNum (Finite (51 / 2))), (''lon'', JNum (Finite (- 90))),
                (''vars'', JArr []), (''src'', JStr []), (''org'', JStr [])]])"
  by code_simp

lemma example_buoys: "update_ndbc_met plain one_silent_station example_now example_search
     = Some (document example_now ''buoys''
         [JObj (buoy_record ''42001'' @ [(''current'', JObj met_readings_example)])])"
  by code_simp

lemma example_stations: "update_coops plain one_silent_station example_now example_search
     = Some (document example_now ''stations''
         [JObj [(''id'', JStr ''42001''),
                (''lat'', JNum (Finite (51 / 2))), (''lon'', JNum (Finite (- 90))),
                (''title'', JStr ''42001''), (''vars'', JArr []), (''src'', JStr [])]])"
  by code_simp

lemma example_gliders: "update_gliders plain one_silent_station example_now example_search
     = Some (document example_now ''gliders'' [])"
  by code_simp

lemma example_drifters: "update_drifters one_silent_station example_now example_search
     = Some (document example_now ''drifters''
         [JObj [(''id'', JStr ''42001''), (''title'', JStr ''42001''),
                (''track'', JArr [JArr [JNum (Finite (- 90)), JNum (Finite (51 / 2))]]),
                (''count'', JNum (Finite 1)), (''src'', JStr [])]])"
  by code_simp

lemma example_incidents: "update_incidents plain example_now example_search
     = Some (document example_now ''incidents''
         [JObj [(''id'', JStr ''42001''), (''title'', JStr ''42001''),
                (''lat'', JNum (Finite (51 / 2))), (''lon'', JNum (Finite (- 90))),
                (''date'', JStr []), (''desc'', JStr []), (''url'', JStr [])]])"
  by code_simp

lemma example_probes: "update_pmel example_now example_search
     = Some (document example_now ''probes''
         [JObj [(''id'', JStr ''42001''), (''title'', JStr ''42001''),
                (''lat'', JNum (Finite (51 / 2))), (''lon'', JNum (Finite (- 90))),
                (''vars'', JArr []), (''date'', JStr []), (''src'', JStr [])]])"
  by code_simp

theorem document_count_is_length_witness:
  "update_ioos_sensors example_now example_search
     = Some (document example_now ''sensors''
         [JObj [(''id'', JStr ''42001''), (''title'', JStr ''42001''),
                (''lat'', JNum (Finite (51 / 2))), (''lon'', JNum (Finite (- 90))),
                (''vars'', JArr []), (''src'', JStr []), (''org'', JStr [])]])
   \<and> count_matches ''sensors''
       (document example_now ''sensors''
         [JObj [(''id'', JStr ''42001''), (''title'', JStr ''42001''),
                (''lat'', JNum (Finite (51 / 2))), (''lon'', JNum (Finite (- 90))),
                (''vars'', JArr []), (''src'', JStr []), (''org'', JStr [])]])
   \<and> update_ndbc_met plain one_silent_station example_now example_search
     = Some (document example_now ''buoys''
         [JObj (buoy_record ''42001'' @ [(''current'', JObj met_readings_example)])])
   \<and> count_matches ''buoys''
       (document example_now ''buoys''
         [JObj (buoy_record ''42001'' @ [(''current'', JObj met_readings_example)])])
   \<and> update_coops plain one_silent_station example_now example_search
     = Some (document example_now ''stations''
         [JObj [(''id'', JStr ''42001''),
                (''lat'', JNum (Finite (51 / 2))), (''lon'', JNum (Finite (- 90))),
                (''title'', JStr ''42001''), (''vars'', JArr []), (''src'', JStr [])]])
   \<and> count_matches ''stations''
       (document example_now ''stations''
         [JObj [(''id'', JStr ''42001''),
                (''lat'', JNum (Finite (51 / 2))), (''lon'', JNum (Finite (- 90))),
                (''title'', JStr ''42001''), (''vars'', JArr []), (''src'', JStr [])]])
   \<and> update_gliders plain one_silent_station example_now example_search
     = Some (document example_now ''gliders'' [])
   \<and> count_matches ''gliders''
       (document example_now ''gliders'' [])
   \<and> update_drifters one_silent_station example_now example_search
     = Some (document example_now ''drifters''
         [JObj [(''id'', JStr ''42001''), (''title'', JStr ''42001''),
                (''track'', JArr [JArr [JNum (Finite (- 90)), JNum (Finite (51 / 2))]]),
                (''count'', JNum (Finite 1)), (''src'', JStr [])]])
   \<and> count_matches ''drifters''
       (document example_now ''drifters''
         [JObj [(''id'', JStr ''42001''), (''title'', JStr ''42001''),
                (''track'', JArr [JArr [JNum (Finite (- 90)), JNum (Finite (51 / 2))]]),
                (''count'', JNum (Finite 1)), (''src'', JStr [])]])
   \<and> update_incidents plain example_now example_search
     = Some (document example_now ''incidents''
         [JObj [(''id'', JStr ''42001''), (''title'', JStr ''42001''),
                (''lat'', JNum (Finite (51 / 2))), (''lon'', JNum (Finite (- 90))),
                (''date'', JStr []), (''desc'', JStr []), (''url'', JStr [])]])
   \<and> count_matches ''incidents''
       (document example_now ''incidents''
         [JObj [(''id'', JStr ''42001''), (''title'', JStr ''42001''),
                (''lat'', JNum (Finite (51 / 2))), (''lon'', JNum (Finite (- 90))),
                (''date'', JStr []), (''desc'', JStr []), (''url'', JStr [])]])
   \<and> update_pmel example_now example_search
     = Some (document example_now ''probes''
         [JObj [(''id'', JStr ''42001''), (''title'', JStr ''42001''),
                (''lat'', JNum (Finite (51 / 2))), (''lon'', JNum (Finite (- 90))),
                (''vars'', JArr []), (''date'', JStr []), (''src'', JStr [])]])
   \<and> count_matches ''probes''
       (document example_now ''probes''
         [JObj [(''id'', JStr ''42001''), (''title'', JStr ''42001''),
                (''lat'', JNum (Finite (51 / 2))), (''lon'', JNum (Finite (- 90))),
                (''vars'', JArr []), (''date'', JStr []), (''src'', JStr [])]])"
  using
    document_count_is_length [where now = example_now and search = example_search
      and B = plain and N = one_silent_station and doc = "document example_now ''sensors'' [JObj [(''id'', JStr ''42001''), (''title'', JStr ''42001''), (''lat'', JNum (Finite (51 / 2))), (''lon'', JNum (Finite (- 90))), (''vars'', JArr []), (''src'', JStr []), (''org'', JStr [])]]"]
    document_count_is_length [where now = example_now and search = example_search
      and B = plain and N = one_silent_station and doc = "document example_now ''buoys'' [JObj (buoy_record ''42001'' @ [(''current'', JObj met_readings_example)])]"]
    document_count_is_length [where now = example_now and search = example_search
      and B = plain and N = one_silent_station and doc = "document example_now ''stations'' [JObj [(''id'', JStr ''42001''), (''lat'', JNum (Finite (51 / 2))), (''lon'', JNum (Finite (- 90))), (''title'', JStr ''42001''), (''vars'', JArr []), (''src'', JStr [])]]"]
    document_count_is_length [where now = example_now and search = example_search
      and B = plain and N = one_silent_station and doc = "document example_now ''gliders'' []"]
    document_count_is_length [where now = example_now and search = example_search
      and B = plain and N = one_silent_station and doc = "document example_now ''drifters'' [JObj [(''id'', JStr ''42001''), (''title'', JStr ''42001''), (''track'', JArr [JArr [JNum (Finite (- 90)), JNum (Finite (51 / 2))]]), (''count'', JNum (Finite 1)), (''src'', JStr [])]]"]
    document_count_is_length [where now = example_now and search = example_search
      and B = plain and N = one_silent_station and doc = "document example_now ''incidents'' [JObj [(''id'', JStr ''42001''), (''title'', JStr ''42001''), (''lat'', JNum (Finite (51 / 2))), (''lon'', JNum (Finite (- 90))), (''date'', JStr []), (''desc'', JStr []), (''url'', JStr [])]]"]
    document_count_is_length [where now = example_now and search = example_search
      and B = plain and N = one_silent_station and doc = "document example_now ''probes'' [JObj [(''id'', JStr ''42001''), (''title'', JStr ''42001''), (''lat'', JNum (Finite (51 / 2))), (''lon'', JNum (Finite (- 90))), (''vars'', JArr []), (''date'', JStr []), (''src'', JStr [])]]"]
    example_sensors example_buoys example_stations example_gliders example_drifters example_incidents example_probes
  by simp

end
